theory Spec2Isabelle
  imports Complex_Main
begin

text \<open>
  A shallow embedding of the hierarchical navigation environment, the frozen policy
  utilities, the goal commands and observations, and the Perlin terrain generator of
  the repository. Tensors are lists or indexed arrays, floats are reals, mutation is
  state passing, an exception is a value, and the simulator, the trained network and
  the random generators are parameters.
\<close>

section \<open>Errors\<close>

text \<open>
  Every exception the modelled Python code can raise is a value of \<open>py_error\<close>; a
  fallible operation returns \<open>py_error + 'a\<close> with \<open>Inl\<close> for the raised exception.
\<close>

datatype py_error = AttributeError | RuntimeError | IndexError | ValueError | ZeroDivisionError

section \<open>Freezing a policy (utils/frozen\_policy.py)\<close>

text \<open>
  A \<open>torch.nn.Parameter\<close> is its flattened values together with the
  \<open>requires_grad\<close> flag; \<open>numel()\<close> is the number of values. A module is its
  \<open>training\<close> flag and the list that \<open>parameters()\<close> yields.
\<close>

record parameter =
  pdata :: "real list"
  requires_grad :: bool

definition numel :: "parameter \<Rightarrow> nat" where
  "numel p = length (pdata p)"

record nn_module =
  training :: bool
  parameters :: "parameter list"

text \<open>
  \<open>runner.alg\<close> carries the network under the attribute \<open>policy\<close> (rsl\_rl 2.3
  onwards) or \<open>actor_critic\<close> (2.2 and below); a missing attribute is \<open>None\<close>.
\<close>

record algorithm =
  policy :: "nn_module option"
  actor_critic :: "nn_module option"

record on_policy_runner =
  alg :: algorithm

definition eval_mode :: "nn_module \<Rightarrow> nn_module" where
  "eval_mode m = m\<lparr>training := False\<rparr>"

text \<open>The loop \<open>for param in policy_nn.parameters(): param.requires_grad = False\<close>.\<close>

fun freeze_params :: "parameter list \<Rightarrow> parameter list" where
  "freeze_params [] = []"
| "freeze_params (param # ps) = param\<lparr>requires_grad := False\<rparr> # freeze_params ps"

definition freeze_module :: "nn_module \<Rightarrow> nn_module" where
  "freeze_module m = (let m1 = eval_mode m in m1\<lparr>parameters := freeze_params (parameters m1)\<rparr>)"

text \<open>
  \<open>freeze_policy\<close> mutates the module held by the runner and returns it: the model
  returns the frozen module and the runner that now holds it.
\<close>

definition freeze_policy :: "on_policy_runner \<Rightarrow> py_error + (nn_module \<times> on_policy_runner)" where
  "freeze_policy runner =
     (case policy (alg runner) of
        Some policy_nn \<Rightarrow>
          (let p = freeze_module policy_nn
           in Inr (p, runner\<lparr>alg := (alg runner)\<lparr>policy := Some p\<rparr>\<rparr>))
      | None \<Rightarrow>
          (case actor_critic (alg runner) of
             Some policy_nn \<Rightarrow>
               (let p = freeze_module policy_nn
                in Inr (p, runner\<lparr>alg := (alg runner)\<lparr>actor_critic := Some p\<rparr>\<rparr>))
           | None \<Rightarrow> Inl AttributeError))"

definition is_frozen :: "nn_module \<Rightarrow> bool" where
  "is_frozen policy_nn = list_all (\<lambda>param. \<not> requires_grad param) (parameters policy_nn)"

definition count_parameters :: "nn_module \<Rightarrow> nat" where
  "count_parameters policy_nn = sum_list (map numel (parameters policy_nn))"

text \<open>The module \<open>freeze_policy\<close> extracts from the runner, before it is frozen.\<close>

definition extracted_module :: "on_policy_runner \<Rightarrow> nn_module option" where
  "extracted_module runner =
     (case policy (alg runner) of Some m \<Rightarrow> Some m | None \<Rightarrow> actor_critic (alg runner))"

section \<open>Tensors\<close>

text \<open>
  A one-dimensional tensor of shape \<open>[n]\<close> is a list. A tensor of shape
  \<open>[num_envs, 3]\<close> or \<open>[num_envs, 2]\<close> whose width the simulator fixes is a list
  of tuples, one per environment. A two-dimensional tensor whose width is not fixed
  (the velocity command term, a high-level action) carries its shape: \<open>vals\<close> holds
  \<open>nrows\<close> rows of \<open>ncols\<close> values each (\<open>wf_tensor2\<close>, which the operations
  below take for granted). 32-bit floats are idealised as reals.
\<close>

record tensor2 =
  nrows :: nat
  ncols :: nat
  vals :: "real list list"

definition wf_tensor2 :: "tensor2 \<Rightarrow> bool" where
  "wf_tensor2 t = (length (vals t) = nrows t \<and> list_all (\<lambda>r. length r = ncols t) (vals t))"

text \<open>
  Broadcasting a value to the shape \<open>[n, k]\<close> of an assignment target: each
  dimension of the value is the target's or is 1 (and is then repeated); anything else
  is torch's RuntimeError.
\<close>

definition expand_to :: "nat \<Rightarrow> nat \<Rightarrow> tensor2 \<Rightarrow> py_error + tensor2" where
  "expand_to n k v =
     (if (nrows v = n \<or> nrows v = 1) \<and> (ncols v = k \<or> ncols v = 1) then
        (let rs = (if nrows v = n then vals v else replicate n (hd (vals v)));
             rs' = (if ncols v = k then rs else map (\<lambda>r. replicate k (hd r)) rs)
         in Inr \<lparr>nrows = n, ncols = k, vals = rs'\<rparr>)
      else Inl RuntimeError)"

text \<open>
  The assignment \<open>t[:, :3] = v\<close>: the target is the slice of the first
  \<open>min 3 (ncols t)\<close> columns of every row.
\<close>

definition set_cols3 :: "tensor2 \<Rightarrow> tensor2 \<Rightarrow> py_error + tensor2" where
  "set_cols3 t v =
     (let k = min 3 (ncols t) in
      case expand_to (nrows t) k v of
        Inl err \<Rightarrow> Inl err
      | Inr v' \<Rightarrow> Inr (t\<lparr>vals := map2 (\<lambda>row vrow. vrow @ drop k row) (vals t) (vals v')\<rparr>))"

section \<open>The low-level environment and its external collaborators\<close>

text \<open>
  The unwrapped low-level environment, as far as this code reads and writes it: the
  root position \<open>[num_envs, 3]\<close> and quaternion \<open>[num_envs, 4]\<close> (w, x, y, z) of the
  robot, the command tensors of the command manager's terms \<open>base_velocity\<close> and
  \<open>goal_position\<close>, and the rest of the simulator, \<open>world\<close>.
\<close>

record 'w low_env =
  num_envs :: nat
  root_pos_w :: "(real \<times> real \<times> real) list"
  root_quat_w :: "(real \<times> real \<times> real \<times> real) list"
  base_velocity :: tensor2
  goal_position :: "(real \<times> real) list"
  world :: 'w

text \<open>
  The extras that the low-level \<open>step\<close> returns and the info dictionary built from
  them. A logged scalar is \<open>Metric\<close>; the mean of an empty tensor is \<open>NaN\<close>.
\<close>

datatype 'v info_val = Metric real | NaN | Other 'v

datatype 'v extras = Dict "string \<rightharpoonup> 'v info_val" | NotDict 'v

text \<open>
  The simulator and the trained network are external: the observation manager's
  \<open>compute()\<close> (its \<open>policy\<close> group), the inference policy, and \<open>step\<close> and
  \<open>reset\<close> of the wrapped environment, which returns
  \<open>(obs, rew, dones, extras)\<close>.
\<close>

record ('w, 'o, 'a, 'v) externals =
  observation_compute :: "'w low_env \<Rightarrow> 'o \<times> 'w low_env"
  inference_policy :: "'o \<Rightarrow> 'a"
  env_step :: "'a \<Rightarrow> 'w low_env \<Rightarrow> ('o \<times> real list \<times> int list \<times> 'v extras) \<times> 'w low_env"
  env_reset :: "'w low_env \<Rightarrow> ('o \<times> 'v extras) \<times> 'w low_env"

section \<open>FrozenLocomotionPolicy.\_\_call\_\_\<close>

text \<open>
  The call stores a clone of the command, assigns the velocity command to the first
  three columns, computes the observation and the actions, and assigns the clone back
  to the first three columns. An exception leaves the environment as it is at the
  raise: the error result carries that environment.
\<close>

definition frozen_policy_call ::
  "('w, 'o, 'a, 'v) externals \<Rightarrow> tensor2 \<Rightarrow> 'w low_env \<Rightarrow> (py_error \<times> 'w low_env) + ('a \<times> 'w low_env)" where
  "frozen_policy_call X velocity_command e =
     (let original_cmd = base_velocity e in
      case set_cols3 (base_velocity e) velocity_command of
        Inl err \<Rightarrow> Inl (err, e)
      | Inr c1 \<Rightarrow>
          (let (obs, e2) = observation_compute X (e\<lparr>base_velocity := c1\<rparr>);
               actions = inference_policy X obs
           in case set_cols3 (base_velocity e2) original_cmd of
                Inl err \<Rightarrow> Inl (err, e2)
              | Inr c3 \<Rightarrow> Inr (actions, e2\<lparr>base_velocity := c3\<rparr>)))"

section \<open>Observation functions (hierarchical\_nav/mdp/observations.py)\<close>

text \<open>
  Row-wise helpers: the difference of two \<open>[n, 2]\<close> tensors, \<open>torch.norm(v, dim=1)\<close>
  of a row, \<open>torch.clamp(d, min=1e-6)\<close>, and \<open>torch.atan2\<close> on reals.
\<close>

definition sub2 :: "real \<times> real \<Rightarrow> real \<times> real \<Rightarrow> real \<times> real" where
  "sub2 a b = (fst a - fst b, snd a - snd b)"

definition norm2 :: "real \<times> real \<Rightarrow> real" where
  "norm2 v = sqrt ((fst v)\<^sup>2 + (snd v)\<^sup>2)"

definition clamp_min :: "real \<Rightarrow> real \<Rightarrow> real" where
  "clamp_min d m = max d m"

definition unit_dir :: "real \<times> real \<Rightarrow> real \<Rightarrow> real \<times> real" where
  "unit_dir v d = (fst v / clamp_min d (1 / 10 ^ 6), snd v / clamp_min d (1 / 10 ^ 6))"

definition atan2 :: "real \<Rightarrow> real \<Rightarrow> real" where
  "atan2 y x =
     (if 0 < x then arctan (y / x)
      else if x < 0 then (if 0 \<le> y then arctan (y / x) + pi else arctan (y / x) - pi)
      else if 0 < y then pi / 2
      else if y < 0 then - (pi / 2)
      else 0)"

definition yaw_of_quat :: "real \<times> real \<times> real \<times> real \<Rightarrow> real" where
  "yaw_of_quat q =
     (case q of (qw, qx, qy, qz) \<Rightarrow>
        atan2 (2 * (qw * qz + qx * qy)) (1 - 2 * (qy * qy + qz * qz)))"

definition robot_position_2d :: "'w low_env \<Rightarrow> (real \<times> real) list" where
  "robot_position_2d e = map (\<lambda>(x, y, z). (x, y)) (root_pos_w e)"

text \<open>\<open>robot_yaw\<close> returns shape \<open>[num_envs, 1]\<close>: one yaw per environment.\<close>

definition robot_yaw :: "'w low_env \<Rightarrow> real list" where
  "robot_yaw e = map yaw_of_quat (root_quat_w e)"

definition goal_position_2d :: "'w low_env \<Rightarrow> (real \<times> real) list" where
  "goal_position_2d e = goal_position e"

definition distance_to_goal :: "'w low_env \<Rightarrow> real list" where
  "distance_to_goal e = map norm2 (map2 sub2 (goal_position_2d e) (robot_position_2d e))"

text \<open>
  In \<open>direction_to_goal\<close> the yaw keeps shape \<open>[num_envs]\<close>, so
  \<open>direction_w[:, 0:1] * cos_yaw\<close> multiplies a \<open>[num_envs, 1]\<close> tensor by a
  \<open>[num_envs]\<close> tensor: broadcasting gives \<open>[num_envs, num_envs]\<close>, entry \<open>(i, j)\<close>
  pairing the direction of environment \<open>i\<close> with the yaw of environment \<open>j\<close>. The
  result, \<open>torch.cat([direction_x, direction_y], dim=1)\<close>, is the list of its rows.
\<close>

definition direction_to_goal :: "'w low_env \<Rightarrow> real list list" where
  "direction_to_goal e =
     (let robot_pos = robot_position_2d e;
          goal_pos = goal_position_2d e;
          robot_yaw_val = map yaw_of_quat (root_quat_w e);
          direction_w = map2 sub2 goal_pos robot_pos;
          distance = map norm2 direction_w;
          direction_w = map2 unit_dir direction_w distance;
          cos_yaw = map cos robot_yaw_val;
          sin_yaw = map sin robot_yaw_val;
          direction_x = map (\<lambda>v. map2 (\<lambda>c s. fst v * c + snd v * s) cos_yaw sin_yaw) direction_w;
          direction_y = map (\<lambda>v. map2 (\<lambda>c s. - fst v * s + snd v * c) cos_yaw sin_yaw) direction_w
      in map2 (@) direction_x direction_y)"

definition goal_reached :: "real \<Rightarrow> 'w low_env \<Rightarrow> bool list" where
  "goal_reached threshold e = map (\<lambda>d. d < threshold) (distance_to_goal e)"

text \<open>Shapes: the per-environment tensors of the simulator have one row per environment.\<close>

definition wf_low_env :: "'w low_env \<Rightarrow> bool" where
  "wf_low_env e =
     (length (root_pos_w e) = num_envs e \<and> length (root_quat_w e) = num_envs e
      \<and> length (goal_position e) = num_envs e)"

section \<open>Random sampling and indexing\<close>

text \<open>
  The random generator is a stream of unit draws in \<open>[0, 1)\<close> and a position.
  \<open>torch.empty(n).uniform_(lo, hi)\<close> takes \<open>n\<close> draws \<open>u\<close> and yields
  \<open>lo + (hi - lo) * u\<close>; it raises when \<open>lo > hi\<close>.
\<close>

record rng =
  draws :: "nat \<Rightarrow> real"
  pos :: nat

definition uniform :: "nat \<Rightarrow> real \<Rightarrow> real \<Rightarrow> rng \<Rightarrow> py_error + (real list \<times> rng)" where
  "uniform n lo hi g =
     (if hi < lo then Inl RuntimeError
      else Inr (map (\<lambda>k. lo + (hi - lo) * draws g (pos g + k)) [0..<n], g\<lparr>pos := pos g + n\<rparr>))"

text \<open>An index into a dimension of size \<open>n\<close>: negative indices count from the end.\<close>

definition index_of :: "nat \<Rightarrow> int \<Rightarrow> py_error + nat" where
  "index_of n i =
     (if 0 \<le> i \<and> i < int n then Inr (nat i)
      else if - int n \<le> i \<and> i < 0 then Inr (nat (int n + i))
      else Inl IndexError)"

text \<open>\<open>t[env_ids]\<close>: the rows of \<open>t\<close> at the given indices.\<close>

fun gather :: "'b list \<Rightarrow> int list \<Rightarrow> py_error + 'b list" where
  "gather t [] = Inr []"
| "gather t (i # env_ids) =
     (case index_of (length t) i of
        Inl err \<Rightarrow> Inl err
      | Inr j \<Rightarrow> (case gather t env_ids of Inl err \<Rightarrow> Inl err | Inr rs \<Rightarrow> Inr (t ! j # rs)))"

text \<open>
  \<open>t[env_ids, c] = values\<close>: the indices are checked, then the values are written in
  order into component \<open>c\<close> (given by its update function) of the indexed rows.
\<close>

fun scatter :: "('b \<Rightarrow> real \<Rightarrow> 'b) \<Rightarrow> 'b list \<Rightarrow> int list \<Rightarrow> real list \<Rightarrow> py_error + 'b list" where
  "scatter upd t [] values = Inr t"
| "scatter upd t (i # env_ids) [] = Inl RuntimeError"
| "scatter upd t (i # env_ids) (x # values) =
     (case index_of (length t) i of
        Inl err \<Rightarrow> Inl err
      | Inr j \<Rightarrow> scatter upd (t[j := upd (t ! j) x]) env_ids values)"

section \<open>Goal resampling\<close>

text \<open>
  The body of \<open>HierarchicalNavEnv._resample_goals\<close>, for a given range of distances:
  sample a distance and an angle per index, read the robot positions at the indices,
  and write \<open>robot + distance * (cos angle, sin angle)\<close> into the goals at the indices.
\<close>

definition resample_positions ::
  "real \<times> real \<Rightarrow> int list \<Rightarrow> rng \<Rightarrow> (real \<times> real) list \<Rightarrow> (real \<times> real) list
     \<Rightarrow> py_error + ((real \<times> real) list \<times> rng)" where
  "resample_positions distance_range env_ids g robot_pos_all goals =
     (case uniform (length env_ids) (fst distance_range) (snd distance_range) g of
        Inl err \<Rightarrow> Inl err
      | Inr (distance, g1) \<Rightarrow>
     (case uniform (length env_ids) (- pi) pi g1 of
        Inl err \<Rightarrow> Inl err
      | Inr (angle, g2) \<Rightarrow>
     (case gather robot_pos_all env_ids of
        Inl err \<Rightarrow> Inl err
      | Inr robot_pos \<Rightarrow>
          (let goal_x = map2 (\<lambda>p (d, a). fst p + d * cos a) robot_pos (zip distance angle);
               goal_y = map2 (\<lambda>p (d, a). snd p + d * sin a) robot_pos (zip distance angle)
           in case scatter (\<lambda>row x. (x, snd row)) goals env_ids goal_x of
                Inl err \<Rightarrow> Inl err
              | Inr goals1 \<Rightarrow>
                  (case scatter (\<lambda>row y. (fst row, y)) goals1 env_ids goal_y of
                     Inl err \<Rightarrow> Inl err
                   | Inr goals2 \<Rightarrow> Inr (goals2, g2))))))"

section \<open>UniformGoalPositionCommand (hierarchical\_nav/mdp/commands.py)\<close>

text \<open>
  The command term as an object: its configured range \<open>cfg.distance_range\<close>, its
  command tensor \<open>_command\<close>, and the attributes that hold an environment, by name.
  The constructor calls \<open>CommandTerm.__init__(cfg, env)\<close> of the library, which stores
  the environment under the name \<open>_env\<close> (\<open>num_envs\<close> and \<open>device\<close> are read from it),
  and then allocates \<open>_command\<close> as \<open>num_envs\<close> rows of zeros. Reading an attribute
  that was never set raises \<open>AttributeError\<close>.
\<close>

record 'w uniform_goal_position_command =
  distance_range :: "real \<times> real"
  command :: "(real \<times> real) list"
  env_attrs :: "string \<rightharpoonup> 'w low_env"

definition init_goal_command ::
  "real \<times> real \<Rightarrow> 'w low_env \<Rightarrow> 'w uniform_goal_position_command" where
  "init_goal_command cfg_distance_range e =
     \<lparr>distance_range = cfg_distance_range,
      command = replicate (num_envs e) (0, 0),
      env_attrs = [''_env'' \<mapsto> e]\<rparr>"

definition getattr ::
  "'w uniform_goal_position_command \<Rightarrow> string \<Rightarrow> py_error + 'w low_env" where
  "getattr self name =
     (case env_attrs self name of None \<Rightarrow> Inl AttributeError | Some e \<Rightarrow> Inr e)"

text \<open>
  \<open>_resample_command\<close>: the two samples are drawn first; the robot positions are then
  read through \<open>self.env\<close>.
\<close>

definition resample_command ::
  "int list \<Rightarrow> rng \<Rightarrow> 'w uniform_goal_position_command
     \<Rightarrow> py_error + ('w uniform_goal_position_command \<times> rng)" where
  "resample_command env_ids g self =
     (case uniform (length env_ids) (fst (distance_range self)) (snd (distance_range self)) g of
        Inl err \<Rightarrow> Inl err
      | Inr (distance, g1) \<Rightarrow>
     (case uniform (length env_ids) (- pi) pi g1 of
        Inl err \<Rightarrow> Inl err
      | Inr (angle, g2) \<Rightarrow>
     (case getattr self ''env'' of
        Inl err \<Rightarrow> Inl err
      | Inr e \<Rightarrow>
     (case gather (robot_position_2d e) env_ids of
        Inl err \<Rightarrow> Inl err
      | Inr robot_pos \<Rightarrow>
          (let goal_x = map2 (\<lambda>p (d, a). fst p + d * cos a) robot_pos (zip distance angle);
               goal_y = map2 (\<lambda>p (d, a). snd p + d * sin a) robot_pos (zip distance angle)
           in case scatter (\<lambda>row x. (x, snd row)) (command self) env_ids goal_x of
                Inl err \<Rightarrow> Inl err
              | Inr command1 \<Rightarrow>
                  (case scatter (\<lambda>row y. (fst row, y)) command1 env_ids goal_y of
                     Inl err \<Rightarrow> Inl err
                   | Inr command2 \<Rightarrow> Inr (self\<lparr>command := command2\<rparr>, g2)))))))"

section \<open>HierarchicalNavEnv (hierarchical\_nav/hierarchical\_nav\_env.py)\<close>

text \<open>
  The wrapper's state: the low-level environment (the wrapped environment and the
  frozen policy wrapper both hold this one simulator), \<open>decimation\<close>, the stored
  previous distance (\<open>None\<close>, or shape \<open>[num_envs, 1]\<close>) and the stored goals
  \<open>[num_envs, 2]\<close>. \<open>_goal_distance_range\<close> is set to \<open>(1.0, 5.0)\<close> by the
  constructor and never assigned again.
\<close>

record 'w nav_env =
  env :: "'w low_env"
  decimation :: int
  prev_distance_to_goal :: "real list option"
  goal_positions :: "(real \<times> real) list"

definition goal_distance_range :: "real \<times> real" where
  "goal_distance_range = (1, 5)"

text \<open>
  Shapes: the simulator's per-environment tensors and the stored goals and previous
  distance have one row per environment.
\<close>

definition wf_nav :: "'w nav_env \<Rightarrow> bool" where
  "wf_nav nav =
     (length (root_pos_w (env nav)) = num_envs (env nav)
      \<and> length (root_quat_w (env nav)) = num_envs (env nav)
      \<and> length (goal_positions nav) = num_envs (env nav)
      \<and> (case prev_distance_to_goal nav of None \<Rightarrow> True
          | Some p \<Rightarrow> length p = num_envs (env nav)))"

text \<open>The constructor; an omitted \<open>decimation\<close> argument (\<open>None\<close>) is 10.\<close>

definition init_nav_env :: "'w low_env \<Rightarrow> int option \<Rightarrow> 'w nav_env" where
  "init_nav_env e dec =
     \<lparr>env = e, decimation = (case dec of None \<Rightarrow> 10 | Some d \<Rightarrow> d),
      prev_distance_to_goal = None,
      goal_positions = replicate (num_envs e) (0, 0)\<rparr>"

definition resample_goals :: "int list \<Rightarrow> rng \<Rightarrow> 'w nav_env \<Rightarrow> py_error + ('w nav_env \<times> rng)" where
  "resample_goals env_ids g nav =
     (case resample_positions goal_distance_range env_ids g
             (robot_position_2d (env nav)) (goal_positions nav) of
        Inl err \<Rightarrow> Inl err
      | Inr (goals, g') \<Rightarrow> Inr (nav\<lparr>goal_positions := goals\<rparr>, g'))"

text \<open>
  \<open>torch.cat(..., dim=1)\<close> of per-environment rows, and the rows of a
  \<open>[num_envs, 2]\<close> and of a \<open>[num_envs, 1]\<close> tensor.
\<close>

definition cat_rows :: "real list list \<Rightarrow> real list list \<Rightarrow> real list list" where
  "cat_rows a b = map2 (@) a b"

definition rows2 :: "(real \<times> real) list \<Rightarrow> real list list" where
  "rows2 ps = map (\<lambda>(x, y). [x, y]) ps"

definition rows1 :: "real list \<Rightarrow> real list list" where
  "rows1 xs = map (\<lambda>x. [x]) xs"

definition get_high_level_observations :: "'w nav_env \<Rightarrow> real list list" where
  "get_high_level_observations nav =
     (let low_env = env nav;
          robot_pos_2d = robot_position_2d low_env;
          robot_yaw_v = robot_yaw low_env;
          goal_pos_2d = goal_positions nav;
          distance_vec = map2 sub2 goal_pos_2d robot_pos_2d;
          distance = map norm2 distance_vec;
          direction_w = map2 unit_dir distance_vec distance;
          cos_yaw = map cos robot_yaw_v;
          sin_yaw = map sin robot_yaw_v;
          direction_x = map2 (\<lambda>v (c, s). fst v * c + snd v * s) direction_w (zip cos_yaw sin_yaw);
          direction_y = map2 (\<lambda>v (c, s). - fst v * s + snd v * c) direction_w (zip cos_yaw sin_yaw);
          direction = cat_rows (rows1 direction_x) (rows1 direction_y)
      in cat_rows (rows2 robot_pos_2d)
           (cat_rows (rows1 robot_yaw_v)
              (cat_rows (rows2 goal_pos_2d)
                 (cat_rows (rows1 distance) direction))))"

text \<open>
  The distance of every environment's robot to its stored goal, as each of the
  methods below recomputes it.
\<close>

definition current_distances :: "'w nav_env \<Rightarrow> real list" where
  "current_distances nav =
     map norm2 (map2 sub2 (goal_positions nav) (robot_position_2d (env nav)))"

definition compute_high_level_rewards :: "'w nav_env \<Rightarrow> real list \<times> 'w nav_env" where
  "compute_high_level_rewards nav =
     (let current_distance = current_distances nav;
          std = 1 / 2;
          goal_reward = map (\<lambda>d. exp (- d / std\<^sup>2)) current_distance;
          prev = (case prev_distance_to_goal nav of
                    None \<Rightarrow> current_distance
                  | Some p \<Rightarrow> p);
          progress = map2 (\<lambda>p d. p - d) prev current_distance;
          nav1 = nav\<lparr>prev_distance_to_goal := Some current_distance\<rparr>;
          total_reward = map2 (\<lambda>g p. g + (1 / 2) * p) goal_reward progress
      in (total_reward, nav1))"

text \<open>
  Elementwise \<open>|\<close> of two one-dimensional boolean tensors: equal lengths, or one of
  length 1 that is broadcast; anything else raises.
\<close>

definition broadcast_or :: "bool list \<Rightarrow> bool list \<Rightarrow> py_error + bool list" where
  "broadcast_or xs ys =
     (if length xs = length ys then Inr (map2 (\<or>) xs ys)
      else if length xs = 1 then Inr (map (\<lambda>y. hd xs \<or> y) ys)
      else if length ys = 1 then Inr (map (\<lambda>x. x \<or> hd ys) xs)
      else Inl RuntimeError)"

text \<open>\<open>dones.bool()\<close> of the integer tensor of done flags.\<close>

definition to_bool :: "int list \<Rightarrow> bool list" where
  "to_bool dones = map (\<lambda>x. x \<noteq> 0) dones"

definition compute_high_level_terminations ::
  "'w nav_env \<Rightarrow> int list \<Rightarrow> py_error + (bool list \<times> bool list)" where
  "compute_high_level_terminations nav low_level_dones =
     (let distance = current_distances nav;
          threshold = 1 / 2;
          goal_reached_v = map (\<lambda>d. d < threshold) distance
      in case broadcast_or goal_reached_v (to_bool low_level_dones) of
           Inl err \<Rightarrow> Inl err
         | Inr high_level_terminated \<Rightarrow> Inr (high_level_terminated, to_bool low_level_dones))"

text \<open>
  A high-level action is a one- or two-dimensional tensor. \<open>step\<close> unsqueezes a
  one-dimensional action, and expands a single row to all environments.
\<close>

datatype action = Act1 "real list" | Act2 tensor2

definition normalise_action :: "nat \<Rightarrow> action \<Rightarrow> tensor2" where
  "normalise_action n a =
     (let a2 = (case a of Act1 v \<Rightarrow> \<lparr>nrows = 1, ncols = length v, vals = [v]\<rparr> | Act2 t \<Rightarrow> t)
      in if nrows a2 = 1 \<and> 1 < n
         then \<lparr>nrows = n, ncols = ncols a2, vals = replicate n (hd (vals a2))\<rparr>
         else a2)"

text \<open>
  The state of the decimation loop: the environment, \<open>info\<close> and \<open>last_dones\<close>. The
  field \<open>ls_calls\<close> is not in the source: it records, for each call of the low-level
  \<open>step\<close> and in order, the environment in which the frozen policy wrapper was
  called, the velocity command it was given, and the joint actions handed to \<open>step\<close>.
\<close>

record ('w, 'a, 'v) loop_state =
  ls_env :: "'w low_env"
  ls_info :: "'v extras"
  ls_last_dones :: "int list option"
  ls_calls :: "('w low_env \<times> tensor2 \<times> 'a) list"

fun low_level_loop ::
  "('w, 'o, 'a, 'v) externals \<Rightarrow> nat \<Rightarrow> tensor2 \<Rightarrow> ('w, 'a, 'v) loop_state
     \<Rightarrow> py_error + ('w, 'a, 'v) loop_state" where
  "low_level_loop X 0 action st = Inr st"
| "low_level_loop X (Suc n) action st =
     (case frozen_policy_call X action (ls_env st) of
        Inl (err, e') \<Rightarrow> Inl err
      | Inr (low_level_actions, e1) \<Rightarrow>
          (case env_step X low_level_actions e1 of
             ((obs, rewards, dones, extras), e2) \<Rightarrow>
               low_level_loop X n action
                 \<lparr>ls_env = e2, ls_info = extras, ls_last_dones = Some dones,
                  ls_calls = ls_calls st @ [(ls_env st, action, low_level_actions)]\<rparr>))"

text \<open>
  The loop \<open>for _ in range(self.decimation)\<close> of \<open>step\<close>, from \<open>info = {}\<close> and
  \<open>last_dones = None\<close>; \<open>range\<close> of a negative number is empty.
\<close>

definition run_low_level ::
  "('w, 'o, 'a, 'v) externals \<Rightarrow> action \<Rightarrow> 'w nav_env \<Rightarrow> py_error + ('w, 'a, 'v) loop_state" where
  "run_low_level X action nav =
     low_level_loop X (nat (decimation nav)) (normalise_action (num_envs (env nav)) action)
       \<lparr>ls_env = env nav, ls_info = Dict Map.empty, ls_last_dones = None, ls_calls = []\<rparr>"

text \<open>\<open>t.mean().item()\<close>: the mean of an empty tensor is NaN.\<close>

definition mean_item :: "real list \<Rightarrow> 'v info_val" where
  "mean_item xs = (if xs = [] then NaN else Metric (sum_list xs / real (length xs)))"

record 'v step_result =
  high_level_obs :: "real list list"
  high_level_reward :: "real list"
  high_level_terminated :: "bool list"
  high_level_truncated :: "bool list"
  info :: "string \<rightharpoonup> 'v info_val"

text \<open>
  \<open>step\<close>. With no low-level step made, \<open>last_dones\<close> is \<open>None\<close> and
  \<open>low_level_dones.bool()\<close> raises AttributeError.
\<close>

definition step ::
  "('w, 'o, 'a, 'v) externals \<Rightarrow> action \<Rightarrow> 'w nav_env \<Rightarrow> py_error + ('v step_result \<times> 'w nav_env)" where
  "step X action nav =
     (case run_low_level X action nav of
        Inl err \<Rightarrow> Inl err
      | Inr st \<Rightarrow>
          (let nav1 = nav\<lparr>env := ls_env st\<rparr>;
               obs = get_high_level_observations nav1;
               (reward, nav2) = compute_high_level_rewards nav1
           in case ls_last_dones st of
                None \<Rightarrow> Inl AttributeError
              | Some last_dones \<Rightarrow>
                  (case compute_high_level_terminations nav2 last_dones of
                     Inl err \<Rightarrow> Inl err
                   | Inr (terminated, truncated) \<Rightarrow>
                       (let distance = current_distances nav2;
                            goal_reached_v = map (\<lambda>d. d < 1 / 2) distance;
                            std = 1 / 2;
                            goal_reward = map (\<lambda>d. exp (- d / std\<^sup>2)) distance;
                            progress_reward =
                              (case prev_distance_to_goal nav2 of
                                 Some p \<Rightarrow> map2 (\<lambda>p d. p - d) p distance
                               | None \<Rightarrow> replicate (num_envs (env nav2)) 0);
                            info0 = (case ls_info st of Dict d \<Rightarrow> d | NotDict x \<Rightarrow> Map.empty);
                            info1 = info0(''Episode_Termination/goal_reached'' \<mapsto>
                                      mean_item (map (\<lambda>b. if b then 1 else 0) goal_reached_v));
                            info2 = info1(''Episode_Reward/goal_reaching'' \<mapsto> mean_item goal_reward);
                            info3 = info2(''Episode_Reward/progress'' \<mapsto> mean_item progress_reward);
                            info4 = info3(''hierarchical/distance_to_goal'' \<mapsto> mean_item distance)
                        in Inr (\<lparr>high_level_obs = obs, high_level_reward = reward,
                                 high_level_terminated = terminated,
                                 high_level_truncated = truncated, info = info4\<rparr>, nav2)))))"


section \<open>Perlin terrain (assets/terrains/perlin\_terrain.py)\<close>

text \<open>
  A two-dimensional numpy array is its shape and its elements by index. An array with
  a last axis of size 2 (the grid, the gradients) is an array of pairs.
\<close>

record 'a arr2 =
  dim0 :: nat
  dim1 :: nat
  elem :: "nat \<Rightarrow> nat \<Rightarrow> 'a"

definition map_arr :: "('a \<Rightarrow> 'b) \<Rightarrow> 'a arr2 \<Rightarrow> 'b arr2" where
  "map_arr f a = \<lparr>dim0 = dim0 a, dim1 = dim1 a, elem = (\<lambda>i j. f (elem a i j))\<rparr>"

definition bind_err :: "py_error + 'a \<Rightarrow> ('a \<Rightarrow> py_error + 'b) \<Rightarrow> py_error + 'b" where
  "bind_err m f = (case m of Inl err \<Rightarrow> Inl err | Inr x \<Rightarrow> f x)"

text \<open>
  numpy broadcasting of two sizes of one axis, and of an elementwise operation on two
  arrays: an axis of size 1 is repeated, unequal sizes otherwise raise ValueError.
\<close>

definition bdim :: "nat \<Rightarrow> nat \<Rightarrow> py_error + nat" where
  "bdim a b = (if a = b then Inr a else if a = 1 then Inr b else if b = 1 then Inr a
               else Inl ValueError)"

definition bc2 :: "('a \<Rightarrow> 'b \<Rightarrow> 'c) \<Rightarrow> 'a arr2 \<Rightarrow> 'b arr2 \<Rightarrow> py_error + 'c arr2" where
  "bc2 f a b =
     bind_err (bdim (dim0 a) (dim0 b)) (\<lambda>m.
     bind_err (bdim (dim1 a) (dim1 b)) (\<lambda>n.
       Inr \<lparr>dim0 = m, dim1 = n,
            elem = (\<lambda>i j. f (elem a (if dim0 a = 1 then 0 else i) (if dim1 a = 1 then 0 else j))
                           (elem b (if dim0 b = 1 then 0 else i) (if dim1 b = 1 then 0 else j)))\<rparr>))"

text \<open>
  \<open>noise += a\<close>: the operand is broadcast to the shape of \<open>noise\<close>, which stays.
\<close>

definition iadd :: "real arr2 \<Rightarrow> real arr2 \<Rightarrow> py_error + real arr2" where
  "iadd noise a =
     (if (dim0 a = dim0 noise \<or> dim0 a = 1) \<and> (dim1 a = dim1 noise \<or> dim1 a = 1)
      then Inr \<lparr>dim0 = dim0 noise, dim1 = dim1 noise,
                elem = (\<lambda>i j. elem noise i j
                          + elem a (if dim0 a = 1 then 0 else i) (if dim1 a = 1 then 0 else j))\<rparr>
      else Inl ValueError)"

text \<open>
  \<open>int(x)\<close> of a float truncates towards zero; \<open>x % 1\<close> is the fractional part;
  \<open>np.rint\<close> rounds to the nearest integer, a tie to the even one. \<open>astype(np.int16)\<close>
  keeps a value that fits 16 bits; what it makes of any other value depends on the
  platform and is the parameter \<open>ovf\<close>.
\<close>

definition py_int :: "real \<Rightarrow> int" where
  "py_int x = (if 0 \<le> x then \<lfloor>x\<rfloor> else \<lceil>x\<rceil>)"

definition frac1 :: "real \<Rightarrow> real" where
  "frac1 x = x - of_int \<lfloor>x\<rfloor>"

definition rint :: "real \<Rightarrow> int" where
  "rint x =
     (let f = \<lfloor>x\<rfloor>; r = x - of_int f
      in if r < 1 / 2 then f else if 1 / 2 < r then f + 1 else if even f then f else f + 1)"

definition astype_int16 :: "(int \<Rightarrow> int) \<Rightarrow> int \<Rightarrow> int" where
  "astype_int16 ovf v = (if - 32768 \<le> v \<and> v \<le> 32767 then v else ovf v)"

text \<open>The interpolant \<open>f\<close> of \<open>generate_perlin_noise_2d\<close>.\<close>

definition fade :: "real \<Rightarrow> real" where
  "fade t = 6 * t ^ 5 - 15 * t ^ 4 + 10 * t ^ 3"

text \<open>
  The ramps and the interpolation of \<open>generate_perlin_noise_2d\<close>, from the grid and
  the four repeated gradient slices: every product and sum is a broadcast operation.
\<close>

definition perlin_interpolate ::
  "(real \<times> real) arr2 \<Rightarrow> (real \<times> real) arr2 \<Rightarrow> (real \<times> real) arr2 \<Rightarrow> (real \<times> real) arr2
     \<Rightarrow> (real \<times> real) arr2 \<Rightarrow> py_error + real arr2" where
  "perlin_interpolate grid g00 g10 g01 g11 =
     bind_err (bc2 (\<lambda>p q. fst p * fst q + snd p * snd q) grid g00) (\<lambda>n00.
     bind_err (bc2 (\<lambda>p q. (fst p - 1) * fst q + snd p * snd q) grid g10) (\<lambda>n10.
     bind_err (bc2 (\<lambda>p q. fst p * fst q + (snd p - 1) * snd q) grid g01) (\<lambda>n01.
     bind_err (bc2 (\<lambda>p q. (fst p - 1) * fst q + (snd p - 1) * snd q) grid g11) (\<lambda>n11.
       (let t0 = map_arr (\<lambda>p. fade (fst p)) grid;
            t1 = map_arr (\<lambda>p. fade (snd p)) grid
        in bind_err (bc2 (\<lambda>n t. n * (1 - t)) n00 t0) (\<lambda>a0.
           bind_err (bc2 (\<lambda>t n. t * n) t0 n10) (\<lambda>b0.
           bind_err (bc2 (\<lambda>x y. x + y) a0 b0) (\<lambda>n0.
           bind_err (bc2 (\<lambda>n t. n * (1 - t)) n01 t0) (\<lambda>a1.
           bind_err (bc2 (\<lambda>t n. t * n) t0 n11) (\<lambda>b1.
           bind_err (bc2 (\<lambda>x y. x + y) a1 b1) (\<lambda>n1.
           bind_err (bc2 (\<lambda>t n. (1 - t) * n) t1 n0) (\<lambda>c0.
           bind_err (bc2 (\<lambda>t n. t * n) t1 n1) (\<lambda>c1.
           bind_err (bc2 (\<lambda>x y. x + y) c0 c1) (\<lambda>c.
             Inr (map_arr (\<lambda>v. sqrt 2 * v * (1 / 2) + 1 / 2) c)))))))))))))))"

text \<open>
  \<open>generate_perlin_noise_2d(shape, res)\<close>. \<open>shape\<close> is the shape of an existing
  array. \<open>np.random.rand(m, n)\<close> takes \<open>m * n\<close> unit draws in row-major order. The
  grid has \<open>ceil(res / delta)\<close> points per axis; a gradient slice repeated \<open>d\<close> times
  has \<open>res * d\<close> points per axis.
\<close>

definition generate_perlin_noise_2d ::
  "nat \<times> nat \<Rightarrow> int \<times> int \<Rightarrow> rng \<Rightarrow> py_error + (real arr2 \<times> rng)" where
  "generate_perlin_noise_2d shape res g =
     (if fst shape = 0 \<or> snd shape = 0 then Inl ZeroDivisionError
      else if fst res = 0 \<or> snd res = 0 then Inl ZeroDivisionError
      else if fst res < 0 \<or> snd res < 0 then Inl ValueError
      else
        (let delta0 = real_of_int (fst res) / real (fst shape);
             delta1 = real_of_int (snd res) / real (snd shape);
             d0 = nat (int (fst shape) div fst res);
             d1 = nat (int (snd shape) div snd res);
             r0 = nat (fst res);
             r1 = nat (snd res);
             grid = \<lparr>dim0 = nat \<lceil>real_of_int (fst res) / delta0\<rceil>,
                     dim1 = nat \<lceil>real_of_int (snd res) / delta1\<rceil>,
                     elem = (\<lambda>i j. (frac1 (real i * delta0), frac1 (real j * delta1)))\<rparr>;
             angles = (\<lambda>i j. 2 * pi * draws g (pos g + i * (r1 + 1) + j));
             gradients = (\<lambda>i j. (cos (angles i j), sin (angles i j)));
             g00 = \<lparr>dim0 = r0 * d0, dim1 = r1 * d1,
                    elem = (\<lambda>i j. gradients (i div d0) (j div d1))\<rparr>;
             g10 = \<lparr>dim0 = r0 * d0, dim1 = r1 * d1,
                    elem = (\<lambda>i j. gradients (i div d0 + 1) (j div d1))\<rparr>;
             g01 = \<lparr>dim0 = r0 * d0, dim1 = r1 * d1,
                    elem = (\<lambda>i j. gradients (i div d0) (j div d1 + 1))\<rparr>;
             g11 = \<lparr>dim0 = r0 * d0, dim1 = r1 * d1,
                    elem = (\<lambda>i j. gradients (i div d0 + 1) (j div d1 + 1))\<rparr>
         in case perlin_interpolate grid g00 g10 g01 g11 of
              Inl err \<Rightarrow> Inl err
            | Inr noise \<Rightarrow> Inr (noise, g\<lparr>pos := pos g + (r0 + 1) * (r1 + 1)\<rparr>)))"

text \<open>
  The update of the scales at the end of an octave:
  \<open>int(fractalLacunarity * xScale), int(fractalLacunarity * yScale)\<close>.
\<close>

definition next_scale :: "real \<Rightarrow> int \<times> int \<Rightarrow> int \<times> int" where
  "next_scale lacunarity scale =
     (py_int (lacunarity * real_of_int (fst scale)), py_int (lacunarity * real_of_int (snd scale)))"

text \<open>The loop \<open>for _ in range(fractalOctaves)\<close> of \<open>generate_fractal_noise_2d\<close>.\<close>

fun fractal_loop ::
  "nat \<Rightarrow> nat \<times> nat \<Rightarrow> real \<Rightarrow> real \<Rightarrow> real
     \<Rightarrow> real arr2 \<times> real \<times> (int \<times> int) \<times> rng \<Rightarrow> py_error + (real arr2 \<times> rng)" where
  "fractal_loop 0 shape lacunarity gain zScale (noise, amplitude, scale, g) = Inr (noise, g)"
| "fractal_loop (Suc n) shape lacunarity gain zScale (noise, amplitude, scale, g) =
     (case generate_perlin_noise_2d shape scale g of
        Inl err \<Rightarrow> Inl err
      | Inr (p, g') \<Rightarrow>
          (case iadd noise (map_arr (\<lambda>v. amplitude * v * zScale) p) of
             Inl err \<Rightarrow> Inl err
           | Inr noise' \<Rightarrow>
               fractal_loop n shape lacunarity gain zScale
                 (noise', amplitude * gain, next_scale lacunarity scale, g')))"

text \<open>
  \<open>generate_fractal_noise_2d\<close>, with the integer arguments \<open>perlin_terrain\<close> passes;
  \<open>np.zeros\<close> of a negative dimension raises ValueError.
\<close>

definition generate_fractal_noise_2d ::
  "int \<Rightarrow> int \<Rightarrow> int \<Rightarrow> int \<Rightarrow> int \<Rightarrow> int \<Rightarrow> real \<Rightarrow> real \<Rightarrow> int \<Rightarrow> rng
     \<Rightarrow> py_error + (real arr2 \<times> rng)" where
  "generate_fractal_noise_2d xSize ySize xSamples ySamples frequency fractalOctaves
       fractalLacunarity fractalGain zScale g =
     (let xScale = frequency * xSize;
          yScale = frequency * ySize;
          amplitude = 1
      in if xSamples < 0 \<or> ySamples < 0 then Inl ValueError
         else
           (let shape = (nat xSamples, nat ySamples);
                noise = \<lparr>dim0 = fst shape, dim1 = snd shape, elem = (\<lambda>i j. 0)\<rparr>
            in fractal_loop (nat fractalOctaves) shape fractalLacunarity fractalGain
                 (real_of_int zScale) (noise, amplitude, (xScale, yScale), g)))"

record hf_perlin_terrain_cfg =
  size_cfg :: "real \<times> real"
  horizontal_scale :: real
  vertical_scale :: real
  frequency :: real
  fractal_octaves :: int
  fractal_lacunarity :: real
  fractal_gain :: real
  z_scale :: real

text \<open>
  \<open>perlin_terrain\<close>, the function under the \<open>height_field_to_mesh\<close> decorator
  (\<open>difficulty\<close> is ignored). A float division by zero raises ZeroDivisionError.
\<close>

definition perlin_terrain ::
  "(int \<Rightarrow> int) \<Rightarrow> hf_perlin_terrain_cfg \<Rightarrow> rng \<Rightarrow> py_error + (int arr2 \<times> rng)" where
  "perlin_terrain ovf cfg g =
     (if horizontal_scale cfg = 0 then Inl ZeroDivisionError
      else
        (let width_pixels = py_int (fst (size_cfg cfg) / horizontal_scale cfg);
             length_pixels = py_int (snd (size_cfg cfg) / horizontal_scale cfg)
         in if vertical_scale cfg = 0 then Inl ZeroDivisionError
            else
              (let height_scale = py_int (z_scale cfg / vertical_scale cfg)
               in case generate_fractal_noise_2d (py_int (fst (size_cfg cfg))) (py_int (snd (size_cfg cfg)))
                         width_pixels length_pixels (py_int (frequency cfg)) (fractal_octaves cfg)
                         (fractal_lacunarity cfg) (fractal_gain cfg) height_scale g of
                    Inl err \<Rightarrow> Inl err
                  | Inr (hf_noise, g') \<Rightarrow>
                      Inr (map_arr (\<lambda>v. astype_int16 ovf (rint v)) hf_noise, g'))))"




section \<open>A concrete configuration\<close>

text \<open>
  One environment whose low-level step moves the robot by the first two entries of
  the joint action and reports done once \<open>x\<close> reaches 2; the observation is the
  velocity command and the policy returns it. Its reset puts the robot at the origin.
\<close>

definition example_externals :: "(nat, real list, real list, unit) externals" where
  "example_externals =
     \<lparr>observation_compute = (\<lambda>e. (concat (vals (base_velocity e)), e)),
      inference_policy = (\<lambda>obs. obs),
      env_step = (\<lambda>a e.
        (([], [], map (\<lambda>(x, y, z). if 2 \<le> x + a ! 0 then 1 else 0) (root_pos_w e), Dict Map.empty),
         e\<lparr>root_pos_w := map (\<lambda>(x, y, z). (x + a ! 0, y + a ! 1, z)) (root_pos_w e),
           world := Suc (world e)\<rparr>)),
      env_reset = (\<lambda>e. (([], Dict Map.empty), e\<lparr>root_pos_w := map (\<lambda>p. (0, 0, 0)) (root_pos_w e)\<rparr>))\<rparr>"

definition example_env :: "nat low_env" where
  "example_env =
     \<lparr>num_envs = 1, root_pos_w = [(0, 0, 0)], root_quat_w = [(1, 0, 0, 0)],
      base_velocity = \<lparr>nrows = 1, ncols = 3, vals = [[0, 0, 0]]\<rparr>,
      goal_position = [(0, 0)], world = 0\<rparr>"

definition example_nav :: "nat nav_env" where
  "example_nav =
     \<lparr>env = example_env, decimation = 2, prev_distance_to_goal = Some [2],
      goal_positions = [(2, 0)]\<rparr>"

definition example_result :: "unit step_result" where
  "example_result =
     \<lparr>high_level_obs = [[2, 0, 0, 2, 0, 0, 0, 0]], high_level_reward = [2],
      high_level_terminated = [True], high_level_truncated = [True],
      info = [''Episode_Termination/goal_reached'' \<mapsto> Metric 1,
              ''Episode_Reward/goal_reaching'' \<mapsto> Metric 1,
              ''Episode_Reward/progress'' \<mapsto> Metric 0,
              ''hierarchical/distance_to_goal'' \<mapsto> Metric 0]\<rparr>"

definition example_nav_after :: "nat nav_env" where
  "example_nav_after =
     example_nav\<lparr>env := example_env\<lparr>root_pos_w := [(2, 0, 0)], world := 2\<rparr>,
                 prev_distance_to_goal := Some [0]\<rparr>"




definition example_rng :: rng where
  "example_rng = \<lparr>draws = (\<lambda>n. 0), pos = 0\<rparr>"

definition example_nav_reset :: "nat nav_env" where
  "example_nav_reset =
     \<lparr>env = example_env, decimation = 2, prev_distance_to_goal = None,
      goal_positions = [(- 1, 0)]\<rparr>"

definition example_result_reset :: "unit step_result" where
  "example_result_reset =
     \<lparr>high_level_obs = [[0, 0, 0, - 1, 0, 1, - 1, 0]], high_level_reward = [exp (- 4)],
      high_level_terminated = [False], high_level_truncated = [False],
      info = [''Episode_Termination/goal_reached'' \<mapsto> Metric 0,
              ''Episode_Reward/goal_reaching'' \<mapsto> Metric (exp (- 4)),
              ''Episode_Reward/progress'' \<mapsto> Metric 0,
              ''hierarchical/distance_to_goal'' \<mapsto> Metric 1]\<rparr>"

definition example_nav_reset_after :: "nat nav_env" where
  "example_nav_reset_after =
     example_nav_reset\<lparr>env := example_env\<lparr>world := 2\<rparr>, prev_distance_to_goal := Some [1]\<rparr>"

text \<open>
  Two terrain configurations: one pixel with two octaves and lacunarity \<open>1.5\<close>; and
  three pixels per axis with a first scale of 6, which does not divide them.
\<close>

definition example_cfg :: hf_perlin_terrain_cfg where
  "example_cfg =
     \<lparr>size_cfg = (1, 1), horizontal_scale = 1, vertical_scale = 1, frequency = 1,
      fractal_octaves = 2, fractal_lacunarity = 3 / 2, fractal_gain = 1 / 4, z_scale = 8\<rparr>"

definition example_cfg_mismatch :: hf_perlin_terrain_cfg where
  "example_cfg_mismatch =
     \<lparr>size_cfg = (3, 3), horizontal_scale = 1, vertical_scale = 1, frequency = 2,
      fractal_octaves = 2, fractal_lacunarity = 2, fractal_gain = 1 / 4, z_scale = 8\<rparr>"

section \<open>Properties of freezing\<close>

lemma freeze_params_requires_grad:
  "prm \<in> set (freeze_params ps) \<Longrightarrow> \<not> requires_grad prm"
  by (induction ps) auto

lemma freeze_params_pdata:
  "map pdata (freeze_params ps) = map pdata ps"
  by (induction ps) auto

lemma freeze_params_numel:
  "map numel (freeze_params ps) = map numel ps"
  by (induction ps) (auto simp: numel_def)

lemma freeze_policy_returns:
  "freeze_policy runner = Inr (p, runner') \<Longrightarrow>
     \<exists>m. extracted_module runner = Some m \<and> p = freeze_module m"
  by (auto simp: freeze_policy_def extracted_module_def Let_def split: option.splits)

text \<open>
  C7. Whenever \<open>freeze_policy\<close> returns a module \<open>p\<close>, every parameter of \<open>p\<close> has
  \<open>requires_grad = False\<close>, \<open>is_frozen p\<close> is true, and the parameters keep their
  number and their values, so \<open>count_parameters\<close> is what it was on the module taken
  from the runner.
\<close>

theorem freeze_policy_frozen_and_count:
  assumes "freeze_policy runner = Inr (p, runner')"
  shows "\<exists>m. extracted_module runner = Some m
           \<and> (\<forall>prm \<in> set (parameters p). \<not> requires_grad prm)
           \<and> is_frozen p
           \<and> length (parameters p) = length (parameters m)
           \<and> map pdata (parameters p) = map pdata (parameters m)
           \<and> count_parameters p = count_parameters m"
proof -
  from assms obtain m where m: "extracted_module runner = Some m" "p = freeze_module m"
    using freeze_policy_returns by blast
  have ps: "parameters p = freeze_params (parameters m)"
    using m(2) by (simp add: freeze_module_def eval_mode_def)
  have "\<forall>prm \<in> set (parameters p). \<not> requires_grad prm"
    using ps freeze_params_requires_grad by auto
  moreover from this have "is_frozen p"
    by (simp add: is_frozen_def list_all_iff)
  moreover have "map pdata (parameters p) = map pdata (parameters m)"
    using ps freeze_params_pdata by simp
  moreover from this have "length (parameters p) = length (parameters m)"
    using map_eq_imp_length_eq by blast
  moreover have "count_parameters p = count_parameters m"
    using ps by (simp add: count_parameters_def freeze_params_numel)
  ultimately show ?thesis using m(1) by blast
qed

theorem freeze_policy_frozen_and_count_witness:
  "freeze_policy
      \<lparr>alg = \<lparr>policy = None,
              actor_critic = Some \<lparr>training = True,
                parameters = [\<lparr>pdata = [1, 2], requires_grad = True\<rparr>,
                              \<lparr>pdata = [3], requires_grad = False\<rparr>]\<rparr>\<rparr>\<rparr>
    = Inr (\<lparr>training = False,
             parameters = [\<lparr>pdata = [1, 2], requires_grad = False\<rparr>,
                           \<lparr>pdata = [3], requires_grad = False\<rparr>]\<rparr>,
           \<lparr>alg = \<lparr>policy = None,
              actor_critic = Some \<lparr>training = False,
                parameters = [\<lparr>pdata = [1, 2], requires_grad = False\<rparr>,
                              \<lparr>pdata = [3], requires_grad = False\<rparr>]\<rparr>\<rparr>\<rparr>)
   \<and> is_frozen \<lparr>training = False,
             parameters = [\<lparr>pdata = [1, 2], requires_grad = False\<rparr>,
                           \<lparr>pdata = [3], requires_grad = False\<rparr>]\<rparr>
   \<and> count_parameters \<lparr>training = False,
             parameters = [\<lparr>pdata = [1, 2], requires_grad = False\<rparr>,
                           \<lparr>pdata = [3], requires_grad = False\<rparr>]\<rparr> = 3"
proof -
  let ?m = "\<lparr>training = True,
                parameters = [\<lparr>pdata = [1, 2], requires_grad = True\<rparr>,
                              \<lparr>pdata = [3::real], requires_grad = False\<rparr>]\<rparr>"
  let ?p = "\<lparr>training = False,
                parameters = [\<lparr>pdata = [1, 2], requires_grad = False\<rparr>,
                              \<lparr>pdata = [3::real], requires_grad = False\<rparr>]\<rparr>"
  let ?r = "\<lparr>alg = \<lparr>policy = None, actor_critic = Some ?m\<rparr>\<rparr>"
  let ?r' = "\<lparr>alg = \<lparr>policy = None, actor_critic = Some ?p\<rparr>\<rparr>"
  have run: "freeze_policy ?r = Inr (?p, ?r')"
    by (simp add: freeze_policy_def freeze_module_def eval_mode_def Let_def)
  have m: "extracted_module ?r = Some ?m"
    by (simp add: extracted_module_def)
  have "count_parameters ?m = 3"
    by (simp add: count_parameters_def numel_def)
  with freeze_policy_frozen_and_count [OF run] m run show ?thesis
    by auto
qed

section \<open>Properties of the frozen policy wrapper\<close>

lemma map2_overwrite:
  "length rs = length vs \<Longrightarrow> \<forall>r \<in> set rs. length r \<le> k \<Longrightarrow>
   map2 (\<lambda>row vrow. vrow @ drop k row) rs vs = vs"
  by (induction rs vs rule: list_induct2) auto

lemma set_cols3_width3:
  assumes "wf_tensor2 t" "wf_tensor2 v" "ncols t = 3" "ncols v = 3" "nrows v = nrows t"
  shows "set_cols3 t v = Inr (t\<lparr>vals := vals v\<rparr>)"
proof -
  have len: "length (vals t) = length (vals v)"
    using assms by (simp add: wf_tensor2_def)
  have rows_t: "\<forall>r \<in> set (vals t). length r \<le> 3"
    using assms by (simp add: wf_tensor2_def list_all_iff)
  have "map2 (\<lambda>row vrow. vrow @ drop 3 row) (vals t) (vals v) = vals v"
    using len rows_t by (rule map2_overwrite)
  then show ?thesis
    using assms by (simp add: set_cols3_def expand_to_def)
qed

lemma frozen_policy_call_width3_restores:
  assumes wf: "wf_tensor2 (base_velocity e)" "wf_tensor2 velocity_command"
    and w: "ncols (base_velocity e) = 3" "ncols velocity_command = 3"
      "nrows velocity_command = nrows (base_velocity e)"
    and frame: "\<forall>s. base_velocity (snd (observation_compute X s)) = base_velocity s"
  shows "\<exists>actions e'. frozen_policy_call X velocity_command e = Inr (actions, e')
            \<and> base_velocity e' = base_velocity e"
proof -
  let ?c1 = "(base_velocity e)\<lparr>vals := vals velocity_command\<rparr>"
  have s1: "set_cols3 (base_velocity e) velocity_command = Inr ?c1"
    using wf w by (rule set_cols3_width3)
  obtain obs e2 where oc: "observation_compute X (e\<lparr>base_velocity := ?c1\<rparr>) = (obs, e2)"
    by (cases "observation_compute X (e\<lparr>base_velocity := ?c1\<rparr>)")
  have b2: "base_velocity e2 = ?c1"
    using frame [rule_format, of "e\<lparr>base_velocity := ?c1\<rparr>"] oc by simp
  have wf1: "wf_tensor2 ?c1"
    using wf w by (simp add: wf_tensor2_def)
  have s2: "set_cols3 ?c1 (base_velocity e) = Inr (?c1\<lparr>vals := vals (base_velocity e)\<rparr>)"
    using wf1 wf(1) w by (intro set_cols3_width3) simp_all
  show ?thesis
    using s1 oc b2 s2 by (simp add: frozen_policy_call_def)
qed

text \<open>
  C2. The restoring assignment \<open>cmd_term.command[:, :3] = original_cmd\<close> assigns the
  whole clone, of the command's width, to a slice of three columns. For a command term
  of width 4 it raises RuntimeError, and the first three columns keep the velocity
  command: here the command \<open>[[0, 0, 0, 7]]\<close> is left as \<open>[[1, 0, 0, 7]]\<close>. (For
  width 3 the command is restored, \<open>frozen_policy_call_width3_restores\<close>.)
\<close>

theorem frozen_policy_call_width4_raises:
  "frozen_policy_call
     \<lparr>observation_compute = (\<lambda>e. ((), e)), inference_policy = (\<lambda>obs. ()),
      env_step = (\<lambda>a e. (((), [], [], NotDict ()), e)),
      env_reset = (\<lambda>e. (((), NotDict ()), e))\<rparr>
     \<lparr>nrows = 1, ncols = 3, vals = [[1, 0, 0]]\<rparr>
     \<lparr>num_envs = 1, root_pos_w = [(0, 0, 0)], root_quat_w = [(1, 0, 0, 0)],
      base_velocity = \<lparr>nrows = 1, ncols = 4, vals = [[0, 0, 0, 7]]\<rparr>,
      goal_position = [(0, 0)], world = ()\<rparr>
   = Inl (RuntimeError,
     \<lparr>num_envs = 1, root_pos_w = [(0, 0, 0)], root_quat_w = [(1, 0, 0, 0)],
      base_velocity = \<lparr>nrows = 1, ncols = 4, vals = [[1, 0, 0, 7]]\<rparr>,
      goal_position = [(0, 0)], world = ()\<rparr>)"
  by (simp add: frozen_policy_call_def set_cols3_def expand_to_def)

section \<open>Properties of the decimation loop and of step\<close>

lemma low_level_loop_trace:
  "low_level_loop X n a st = Inr st' \<Longrightarrow>
     length (ls_calls st') = length (ls_calls st) + n
     \<and> take (length (ls_calls st)) (ls_calls st') = ls_calls st
     \<and> (0 < n \<longrightarrow> fst (ls_calls st' ! length (ls_calls st)) = ls_env st)
     \<and> (\<forall>k. length (ls_calls st) \<le> k \<and> k < length (ls_calls st') \<longrightarrow>
           (\<exists>e_k a_k e1 out e2. ls_calls st' ! k = (e_k, a, a_k)
               \<and> frozen_policy_call X a e_k = Inr (a_k, e1)
               \<and> env_step X a_k e1 = (out, e2)
               \<and> e2 = (if Suc k < length (ls_calls st') then fst (ls_calls st' ! Suc k)
                       else ls_env st')
               \<and> (Suc k = length (ls_calls st') \<longrightarrow>
                     ls_last_dones st' = Some (fst (snd (snd out)))
                     \<and> ls_info st' = snd (snd (snd out)))))"
proof (induction n arbitrary: st)
  case 0
  then show ?case by auto
next
  case (Suc n)
  from Suc.prems obtain acts e1 where fc: "frozen_policy_call X a (ls_env st) = Inr (acts, e1)"
    by (auto split: sum.splits prod.splits)
  obtain obs rewards dones extras e2
    where es: "env_step X acts e1 = ((obs, rewards, dones, extras), e2)"
    by (metis prod_cases3 surj_pair)
  let ?st1 = "\<lparr>ls_env = e2, ls_info = extras, ls_last_dones = Some dones,
                  ls_calls = ls_calls st @ [(ls_env st, a, acts)]\<rparr>"
  let ?L = "length (ls_calls st)"
  have run: "low_level_loop X n a ?st1 = Inr st'"
    using Suc.prems fc es by simp
  note ih = Suc.IH [OF run]
  have len: "length (ls_calls st') = ?L + Suc n"
    using ih by simp
  have tk: "take (Suc ?L) (ls_calls st') = ls_calls st @ [(ls_env st, a, acts)]"
    using ih by simp
  have tk0: "take ?L (ls_calls st') = ls_calls st"
  proof -
    have "take ?L (take (Suc ?L) (ls_calls st')) = ls_calls st"
      unfolding tk by simp
    then show ?thesis by (simp add: min_def)
  qed
  have first: "ls_calls st' ! ?L = (ls_env st, a, acts)"
  proof -
    have "ls_calls st' ! ?L = take (Suc ?L) (ls_calls st') ! ?L"
      by simp
    also have "\<dots> = (ls_env st, a, acts)"
      unfolding tk by simp
    finally show ?thesis .
  qed
  have next_env: "e2 = (if Suc ?L < length (ls_calls st') then fst (ls_calls st' ! Suc ?L)
                        else ls_env st')"
  proof (cases n)
    case 0
    with run have "st' = ?st1" by simp
    then have "ls_env st' = e2" by (metis loop_state.select_convs(1))
    then show ?thesis using len 0 by simp
  next
    case (Suc m)
    with ih have "fst (ls_calls st' ! length (ls_calls ?st1)) = ls_env ?st1" by simp
    then show ?thesis using len Suc by simp
  qed
  have last_out: "Suc ?L = length (ls_calls st') \<longrightarrow>
                    ls_last_dones st' = Some dones \<and> ls_info st' = extras"
  proof
    assume "Suc ?L = length (ls_calls st')"
    with len have "n = 0" by simp
    with run have "st' = ?st1" by simp
    then show "ls_last_dones st' = Some dones \<and> ls_info st' = extras"
      by (metis loop_state.select_convs(2,3))
  qed
  have rest: "\<forall>k. ?L \<le> k \<and> k < length (ls_calls st') \<longrightarrow>
           (\<exists>e_k a_k e1 out e2. ls_calls st' ! k = (e_k, a, a_k)
               \<and> frozen_policy_call X a e_k = Inr (a_k, e1)
               \<and> env_step X a_k e1 = (out, e2)
               \<and> e2 = (if Suc k < length (ls_calls st') then fst (ls_calls st' ! Suc k)
                       else ls_env st')
               \<and> (Suc k = length (ls_calls st') \<longrightarrow>
                     ls_last_dones st' = Some (fst (snd (snd out)))
                     \<and> ls_info st' = snd (snd (snd out))))"
  proof (intro allI impI)
    fix k assume k: "?L \<le> k \<and> k < length (ls_calls st')"
    show "\<exists>e_k a_k e1 out e2. ls_calls st' ! k = (e_k, a, a_k)
               \<and> frozen_policy_call X a e_k = Inr (a_k, e1)
               \<and> env_step X a_k e1 = (out, e2)
               \<and> e2 = (if Suc k < length (ls_calls st') then fst (ls_calls st' ! Suc k)
                       else ls_env st')
               \<and> (Suc k = length (ls_calls st') \<longrightarrow>
                     ls_last_dones st' = Some (fst (snd (snd out)))
                     \<and> ls_info st' = snd (snd (snd out)))"
    proof (cases "k = ?L")
      case True
      show ?thesis
        apply (rule exI [of _ "ls_env st"], rule exI [of _ acts], rule exI [of _ e1])
        apply (rule exI [of _ "(obs, rewards, dones, extras)"], rule exI [of _ e2])
        using True first fc es next_env last_out by simp
    next
      case False
      then have "length (ls_calls ?st1) \<le> k \<and> k < length (ls_calls st')"
        using k by simp
      with ih show ?thesis by blast
    qed
  qed
  have hd_env: "fst (ls_calls st' ! ?L) = ls_env st"
    using first by simp
  show ?case using len tk0 rest hd_env by blast
qed

lemma step_returns:
  assumes "step X action nav = Inr (r, nav')"
  obtains st dones where
    "run_low_level X action nav = Inr st"
    "ls_last_dones st = Some dones"
    "nav' = snd (compute_high_level_rewards (nav\<lparr>env := ls_env st\<rparr>))"
    "high_level_obs r = get_high_level_observations (nav\<lparr>env := ls_env st\<rparr>)"
    "high_level_reward r = fst (compute_high_level_rewards (nav\<lparr>env := ls_env st\<rparr>))"
    "compute_high_level_terminations nav' dones
       = Inr (high_level_terminated r, high_level_truncated r)"
  using assms
  by (auto simp: step_def Let_def split: sum.splits option.splits prod.splits)

lemma run_low_level_trace:
  assumes "run_low_level X action nav = Inr st"
  shows "length (ls_calls st) = nat (decimation nav)
     \<and> (0 < nat (decimation nav) \<longrightarrow> fst (ls_calls st ! 0) = env nav)
     \<and> (\<forall>k < length (ls_calls st). \<exists>e_k a_k e1 out e2.
           ls_calls st ! k = (e_k, normalise_action (num_envs (env nav)) action, a_k)
         \<and> frozen_policy_call X (normalise_action (num_envs (env nav)) action) e_k = Inr (a_k, e1)
         \<and> env_step X a_k e1 = (out, e2)
         \<and> e2 = (if Suc k < length (ls_calls st) then fst (ls_calls st ! Suc k) else ls_env st)
         \<and> (Suc k = length (ls_calls st) \<longrightarrow>
               ls_last_dones st = Some (fst (snd (snd out))) \<and> ls_info st = snd (snd (snd out))))"
proof -
  obtain st0 where st0: "low_level_loop X (nat (decimation nav))
        (normalise_action (num_envs (env nav)) action) st0 = Inr st"
      and c0: "ls_calls st0 = []" "ls_env st0 = env nav"
    using assms unfolding run_low_level_def by force
  note t = low_level_loop_trace [OF st0]
  have 1: "length (ls_calls st) = nat (decimation nav)"
    using t [THEN conjunct1] by (simp add: c0)
  have 2: "0 < nat (decimation nav) \<longrightarrow> fst (ls_calls st ! 0) = env nav"
    using t [THEN conjunct2, THEN conjunct2, THEN conjunct1] by (simp add: c0)
  have 3: "\<forall>k < length (ls_calls st). \<exists>e_k a_k e1 out e2.
           ls_calls st ! k = (e_k, normalise_action (num_envs (env nav)) action, a_k)
         \<and> frozen_policy_call X (normalise_action (num_envs (env nav)) action) e_k = Inr (a_k, e1)
         \<and> env_step X a_k e1 = (out, e2)
         \<and> e2 = (if Suc k < length (ls_calls st) then fst (ls_calls st ! Suc k) else ls_env st)
         \<and> (Suc k = length (ls_calls st) \<longrightarrow>
               ls_last_dones st = Some (fst (snd (snd out))) \<and> ls_info st = snd (snd (snd out)))"
    using t [THEN conjunct2, THEN conjunct2, THEN conjunct2] unfolding c0
    by (simp only: list.size le0 simp_thms)
  show ?thesis using 1 2 3 by (intro conjI)
qed

lemma run_low_level_dones:
  assumes "run_low_level X action nav = Inr st" "ls_last_dones st = Some dones"
  shows "0 < decimation nav"
proof (rule ccontr)
  assume "\<not> 0 < decimation nav"
  then have "nat (decimation nav) = 0" by simp
  with assms(1) have "ls_last_dones st = None"
    by (auto simp: run_low_level_def)
  with assms(2) show False by simp
qed

lemma current_distances_prev [simp]:
  "current_distances (nav\<lparr>prev_distance_to_goal := x\<rparr>) = current_distances nav"
  by (simp add: current_distances_def)

lemma rewards_state:
  "snd (compute_high_level_rewards nav)
     = nav\<lparr>prev_distance_to_goal := Some (current_distances nav)\<rparr>"
  by (simp add: compute_high_level_rewards_def Let_def)


lemma step_final_state:
  assumes "step X action nav = Inr (r, nav')"
  obtains st where "run_low_level X action nav = Inr st"
    "nav' = nav\<lparr>env := ls_env st, prev_distance_to_goal := Some (current_distances nav')\<rparr>"
proof -
  from assms obtain st dones where st: "run_low_level X action nav = Inr st"
    "nav' = snd (compute_high_level_rewards (nav\<lparr>env := ls_env st\<rparr>))"
    by (rule step_returns)
  have "nav' = nav\<lparr>env := ls_env st, prev_distance_to_goal := Some (current_distances nav')\<rparr>"
    using st(2) by (simp add: rewards_state)
  with st(1) show thesis by (rule that)
qed

lemma current_distances_length:
  "wf_nav nav \<Longrightarrow> length (current_distances nav) = num_envs (env nav)"
  by (simp add: wf_nav_def current_distances_def robot_position_2d_def)

lemma current_distances_nth:
  "wf_nav nav \<Longrightarrow> i < num_envs (env nav) \<Longrightarrow>
   current_distances nav ! i
     = norm2 (sub2 (goal_positions nav ! i) (robot_position_2d (env nav) ! i))"
  by (simp add: wf_nav_def current_distances_def robot_position_2d_def)


lemma broadcast_or_right:
  "broadcast_or xs ys = Inr t \<Longrightarrow> i < length ys \<Longrightarrow> i < length t \<Longrightarrow> ys ! i \<Longrightarrow> t ! i"
proof -
  assume bo: "broadcast_or xs ys = Inr t" and i: "i < length ys" "i < length t" and y: "ys ! i"
  consider (eq) "length xs = length ys"
    | (left) "length xs \<noteq> length ys" "length xs = 1"
    | (right) "length xs \<noteq> length ys" "length xs \<noteq> 1" "length ys = 1"
    using bo by (auto simp: broadcast_or_def split: if_splits)
  then show "t ! i"
  proof cases
    case eq
    with bo have "t = map2 (\<or>) xs ys" by (simp add: broadcast_or_def)
    with eq i y show ?thesis by simp
  next
    case left
    with bo have "t = map (\<lambda>y. hd xs \<or> y) ys" by (simp add: broadcast_or_def)
    with i y show ?thesis by simp
  next
    case right
    with bo have t: "t = map (\<lambda>x. x \<or> hd ys) xs" by (simp add: broadcast_or_def)
    from right i have i0: "i = 0" by simp
    from right have "ys \<noteq> []" by auto
    then have "hd ys = ys ! 0" by (rule hd_conv_nth)
    with t i i0 y show ?thesis by simp
  qed
qed

lemma sum_list_map2_self:
  "sum_list (map2 (\<lambda>p d. p - d) xs xs) = (0::real)"
  by (induction xs) auto


subsection \<open>The concrete configuration, evaluated\<close>

lemma example_run:
  "run_low_level example_externals (Act1 [1, 0, 0]) example_nav
     = Inr \<lparr>ls_env = example_env\<lparr>root_pos_w := [(2, 0, 0)], world := 2\<rparr>,
            ls_info = Dict Map.empty, ls_last_dones = Some [1],
            ls_calls = [(example_env, \<lparr>nrows = 1, ncols = 3, vals = [[1, 0, 0]]\<rparr>, [1, 0, 0]),
                        (example_env\<lparr>root_pos_w := [(1, 0, 0)], world := 1\<rparr>,
                         \<lparr>nrows = 1, ncols = 3, vals = [[1, 0, 0]]\<rparr>, [1, 0, 0])]\<rparr>"
  unfolding run_low_level_def
  by (simp add: example_nav_def numeral_2_eq_2 normalise_action_def
        example_externals_def example_env_def frozen_policy_call_def set_cols3_def expand_to_def)

lemma example_step:
  "step example_externals (Act1 [1, 0, 0]) example_nav = Inr (example_result, example_nav_after)"
  unfolding step_def example_run
  by (simp add: example_nav_def example_env_def example_result_def example_nav_after_def
        get_high_level_observations_def
        compute_high_level_rewards_def compute_high_level_terminations_def
        current_distances_def robot_position_2d_def robot_yaw_def yaw_of_quat_def atan2_def
        sub2_def norm2_def unit_dir_def clamp_min_def cat_rows_def rows1_def rows2_def
        broadcast_or_def to_bool_def mean_item_def Let_def)


lemma example_run_reset:
  "run_low_level example_externals (Act1 [0, 0, 0]) example_nav_reset
     = Inr \<lparr>ls_env = example_env\<lparr>world := 2\<rparr>,
            ls_info = Dict Map.empty, ls_last_dones = Some [0],
            ls_calls = [(example_env, \<lparr>nrows = 1, ncols = 3, vals = [[0, 0, 0]]\<rparr>, [0, 0, 0]),
                        (example_env\<lparr>world := 1\<rparr>,
                         \<lparr>nrows = 1, ncols = 3, vals = [[0, 0, 0]]\<rparr>, [0, 0, 0])]\<rparr>"
  unfolding run_low_level_def
  by (simp add: example_nav_reset_def numeral_2_eq_2 normalise_action_def
        example_externals_def example_env_def frozen_policy_call_def set_cols3_def expand_to_def)

lemma example_step_reset:
  "step example_externals (Act1 [0, 0, 0]) example_nav_reset
     = Inr (example_result_reset, example_nav_reset_after)"
  unfolding step_def example_run_reset
  by (simp add: example_nav_reset_def example_env_def example_result_reset_def
        example_nav_reset_after_def get_high_level_observations_def
        compute_high_level_rewards_def compute_high_level_terminations_def
        current_distances_def robot_position_2d_def robot_yaw_def yaw_of_quat_def atan2_def
        sub2_def norm2_def unit_dir_def clamp_min_def cat_rows_def rows1_def rows2_def
        broadcast_or_def to_bool_def mean_item_def Let_def power2_eq_square)



lemma example_run_default:
  "\<exists>st. run_low_level example_externals (Act1 [1 / 10, 0, 0]) (init_nav_env example_env None) = Inr st
      \<and> length (ls_calls st) = 10 \<and> world (ls_env st) = 10
      \<and> root_pos_w (ls_env st) = [(1, 0, 0)]
      \<and> map (\<lambda>c. world (fst c)) (ls_calls st) = [0, 1, 2, 3, 4, 5, 6, 7, 8, 9]"
  unfolding run_low_level_def
  by (simp add: init_nav_env_def eval_nat_numeral normalise_action_def
        example_externals_def example_env_def frozen_policy_call_def set_cols3_def expand_to_def)

lemma example_step_default:
  "\<exists>r nav'. step example_externals (Act1 [1 / 10, 0, 0]) (init_nav_env example_env None) = Inr (r, nav')
      \<and> world (env nav') = 10
      \<and> root_pos_w (env nav') = [(1, 0, 0)]
      \<and> high_level_terminated r = [False]"
  unfolding step_def run_low_level_def
  by (simp add: init_nav_env_def eval_nat_numeral normalise_action_def
        example_externals_def example_env_def frozen_policy_call_def set_cols3_def expand_to_def
        get_high_level_observations_def
        compute_high_level_rewards_def compute_high_level_terminations_def
        current_distances_def robot_position_2d_def robot_yaw_def yaw_of_quat_def atan2_def
        sub2_def norm2_def unit_dir_def clamp_min_def cat_rows_def rows1_def rows2_def
        broadcast_or_def to_bool_def mean_item_def Let_def)

lemma example_wf:
  "wf_nav example_nav" "wf_nav example_nav_after"
  "wf_nav example_nav_reset" "wf_nav example_nav_reset_after"
  by (simp_all add: wf_nav_def example_nav_def example_nav_after_def example_nav_reset_def
        example_nav_reset_after_def example_env_def)

subsection \<open>Decimation\<close>

text \<open>
  C1. Whenever \<open>step\<close> returns, the decimation loop has run to its end and the
  low-level \<open>step\<close> was called exactly \<open>decimation\<close> times (10 when the
  constructor is given none). Call \<open>k\<close> is \<open>env_step\<close> applied, in the environment
  that the frozen policy wrapper left, to the joint actions \<open>a_k\<close> that the wrapper
  returned in the environment \<open>e_k\<close> of that moment for the one normalised
  high-level action; the first call starts from the environment \<open>step\<close> was given,
  every later call from the environment the call before it produced, and the last
  call produces the environment, the \<open>dones\<close> and the \<open>info\<close> the loop ends with.
  The high-level observations, reward and termination flags are computed on that
  final environment.
\<close>

theorem step_decimated_low_level_calls:
  assumes "step X action nav = Inr (r, nav')"
  shows "\<exists>st. run_low_level X action nav = Inr st
      \<and> int (length (ls_calls st)) = decimation nav
      \<and> fst (ls_calls st ! 0) = env nav
      \<and> (\<forall>k < length (ls_calls st). \<exists>e_k a_k e1 out e2.
            ls_calls st ! k = (e_k, normalise_action (num_envs (env nav)) action, a_k)
          \<and> frozen_policy_call X (normalise_action (num_envs (env nav)) action) e_k = Inr (a_k, e1)
          \<and> env_step X a_k e1 = (out, e2)
          \<and> e2 = (if Suc k < length (ls_calls st) then fst (ls_calls st ! Suc k) else ls_env st)
          \<and> (Suc k = length (ls_calls st) \<longrightarrow>
                ls_last_dones st = Some (fst (snd (snd out))) \<and> ls_info st = snd (snd (snd out))))
      \<and> high_level_obs r = get_high_level_observations (nav\<lparr>env := ls_env st\<rparr>)
      \<and> high_level_reward r = fst (compute_high_level_rewards (nav\<lparr>env := ls_env st\<rparr>))
      \<and> (\<exists>dones. ls_last_dones st = Some dones
            \<and> compute_high_level_terminations nav' dones
                 = Inr (high_level_terminated r, high_level_truncated r))
      \<and> env nav' = ls_env st
      \<and> decimation (init_nav_env (env nav) None) = 10"
proof -
  from assms obtain st dones where st:
    "run_low_level X action nav = Inr st"
    "ls_last_dones st = Some dones"
    "nav' = snd (compute_high_level_rewards (nav\<lparr>env := ls_env st\<rparr>))"
    "high_level_obs r = get_high_level_observations (nav\<lparr>env := ls_env st\<rparr>)"
    "high_level_reward r = fst (compute_high_level_rewards (nav\<lparr>env := ls_env st\<rparr>))"
    "compute_high_level_terminations nav' dones
       = Inr (high_level_terminated r, high_level_truncated r)"
    by (rule step_returns)
  have pos: "0 < decimation nav"
    using st(1,2) by (rule run_low_level_dones)
  note tr = run_low_level_trace [OF st(1)]
  have len: "int (length (ls_calls st)) = decimation nav"
    using tr pos by simp
  have first: "fst (ls_calls st ! 0) = env nav"
    using tr pos by simp
  have e: "env nav' = ls_env st"
    using st(3) by (simp add: rewards_state)
  have dflt: "decimation (init_nav_env (env nav) None) = 10"
    by (simp add: init_nav_env_def)
  show ?thesis
    using st(1,2,4,5,6) len first tr e dflt by blast
qed

text \<open>
  With the default decimation of 10 and the high-level action \<open>(1/10, 0, 0)\<close>, the
  example simulator, which counts its own steps in \<open>world\<close>, is entered at counts
  \<open>0, \<dots>, 9\<close>, ends at count 10, and has moved the robot from the origin to
  \<open>(1, 0, 0)\<close>.
\<close>

theorem step_decimated_low_level_calls_witness:
  "\<exists>r nav' st.
       step example_externals (Act1 [1 / 10, 0, 0]) (init_nav_env example_env None) = Inr (r, nav')
     \<and> run_low_level example_externals (Act1 [1 / 10, 0, 0]) (init_nav_env example_env None) = Inr st
     \<and> decimation (init_nav_env example_env None) = 10
     \<and> int (length (ls_calls st)) = 10
     \<and> fst (ls_calls st ! 0) = example_env
     \<and> map (\<lambda>c. world (fst c)) (ls_calls st) = [0, 1, 2, 3, 4, 5, 6, 7, 8, 9]
     \<and> env nav' = ls_env st
     \<and> world (env nav') = 10
     \<and> root_pos_w (env nav') = [(1, 0, 0)]
     \<and> high_level_obs r = get_high_level_observations ((init_nav_env example_env None)\<lparr>env := ls_env st\<rparr>)"
proof -
  let ?nav = "init_nav_env example_env None"
  let ?act = "Act1 [1 / 10, 0, 0]"
  obtain r nav' where s: "step example_externals ?act ?nav = Inr (r, nav')"
    and w: "world (env nav') = 10" "root_pos_w (env nav') = [(1, 0, 0)]"
    using example_step_default by blast
  obtain st where st: "run_low_level example_externals ?act ?nav = Inr st"
    and len: "int (length (ls_calls st)) = decimation ?nav"
    and first: "fst (ls_calls st ! 0) = env ?nav"
    and obs: "high_level_obs r = get_high_level_observations (?nav\<lparr>env := ls_env st\<rparr>)"
    and e: "env nav' = ls_env st"
    and dflt: "decimation (init_nav_env (env ?nav) None) = 10"
    using step_decimated_low_level_calls [OF s] by blast
  have worlds: "map (\<lambda>c. world (fst c)) (ls_calls st) = [0, 1, 2, 3, 4, 5, 6, 7, 8, 9]"
    using example_run_default st by auto
  have d: "decimation ?nav = 10" by (simp add: init_nav_env_def)
  have en: "env ?nav = example_env" by (simp add: init_nav_env_def)
  show ?thesis
    apply (rule exI [of _ r], rule exI [of _ nav'], rule exI [of _ st])
    using s st d len [unfolded d] first [unfolded en] worlds e w obs by (intro conjI)
qed

subsection \<open>Termination flags\<close>





text \<open>
  C9. Whenever \<open>step\<close> returns, the truncated flags are the done flags of the last
  low-level step, and at every index a set truncated flag comes with a set terminated
  flag: terminated false with truncated true does not occur.
\<close>

theorem step_truncated_implies_terminated:
  assumes "step X action nav = Inr (r, nav')"
    and "i < length (high_level_truncated r)"
    and "i < length (high_level_terminated r)"
  shows "\<exists>st dones. run_low_level X action nav = Inr st
           \<and> ls_last_dones st = Some dones
           \<and> high_level_truncated r = to_bool dones
           \<and> (high_level_truncated r ! i \<longrightarrow> high_level_terminated r ! i)
           \<and> \<not> (\<not> high_level_terminated r ! i \<and> high_level_truncated r ! i)"
proof -
  from assms(1) obtain st dones where st:
    "run_low_level X action nav = Inr st"
    "ls_last_dones st = Some dones"
    "compute_high_level_terminations nav' dones
       = Inr (high_level_terminated r, high_level_truncated r)"
    by (rule step_returns)
  have tr: "high_level_truncated r = to_bool dones"
    using st(3)
    by (auto simp: compute_high_level_terminations_def Let_def split: sum.splits)
  have bo: "broadcast_or (map (\<lambda>d. d < 1 / 2) (current_distances nav')) (to_bool dones)
              = Inr (high_level_terminated r)"
    using st(3)
    by (auto simp: compute_high_level_terminations_def Let_def split: sum.splits)
  have imp: "high_level_truncated r ! i \<longrightarrow> high_level_terminated r ! i"
    using broadcast_or_right [OF bo] assms(2,3) tr by auto
  show ?thesis using st(1,2) tr imp by blast
qed

theorem step_truncated_implies_terminated_witness:
  "step example_externals (Act1 [1, 0, 0]) example_nav = Inr (example_result, example_nav_after)
   \<and> high_level_truncated example_result ! 0 = True
   \<and> high_level_terminated example_result ! 0 = True"
proof -
  have "\<exists>st dones. run_low_level example_externals (Act1 [1, 0, 0]) example_nav = Inr st
           \<and> ls_last_dones st = Some dones
           \<and> high_level_truncated example_result = to_bool dones
           \<and> (high_level_truncated example_result ! 0 \<longrightarrow> high_level_terminated example_result ! 0)
           \<and> \<not> (\<not> high_level_terminated example_result ! 0 \<and> high_level_truncated example_result ! 0)"
    by (rule step_truncated_implies_terminated [OF example_step])
       (simp_all add: example_result_def)
  moreover have "high_level_truncated example_result ! 0"
    by (simp add: example_result_def)
  ultimately show ?thesis
    using example_step by auto
qed

subsection \<open>Reward\<close>



subsection \<open>The logged progress\<close>

text \<open>
  C10. Whenever \<open>step\<close> returns (for at least one environment), the info entry
  \<open>Episode_Reward/progress\<close> is \<open>0.0\<close>: the reward computation has already stored
  the current distances, and the logging code subtracts from them the distances it
  recomputes from the same state.
\<close>

theorem step_logged_progress_zero:
  assumes "step X action nav = Inr (r, nav')"
    and "wf_nav nav'"
    and "0 < num_envs (env nav')"
  shows "info r ''Episode_Reward/progress'' = Some (Metric 0)"
proof -
  from assms(1) obtain st where st: "run_low_level X action nav = Inr st"
    "nav' = nav\<lparr>env := ls_env st, prev_distance_to_goal := Some (current_distances nav')\<rparr>"
    by (rule step_final_state)
  have ne: "current_distances nav' \<noteq> []"
    using current_distances_length [OF assms(2)] assms(3) by auto
  let ?nav1 = "nav\<lparr>env := ls_env st\<rparr>"
  have "current_distances nav' = current_distances ?nav1"
    by (subst st(2)) (simp add: current_distances_def)
  then have cd: "current_distances ?nav1 = current_distances nav'"
    by simp
  have "info r ''Episode_Reward/progress''
          = Some (mean_item (map2 (\<lambda>p d. p - d) (current_distances nav') (current_distances nav')))"
    using assms(1) st(1) cd
    by (auto simp: step_def Let_def compute_high_level_rewards_def
             split: sum.splits option.splits prod.splits)
  then show ?thesis
    using ne by (simp add: mean_item_def sum_list_map2_self)
qed

theorem step_logged_progress_zero_witness:
  "step example_externals (Act1 [0, 0, 0]) example_nav_reset
     = Inr (example_result_reset, example_nav_reset_after)
   \<and> wf_nav example_nav_reset_after
   \<and> num_envs (env example_nav_reset_after) = 1
   \<and> info example_result_reset ''Episode_Reward/progress'' = Some (Metric 0)"
proof -
  have n: "num_envs (env example_nav_reset_after) = 1"
    by (simp add: example_nav_reset_after_def example_env_def)
  then have "0 < num_envs (env example_nav_reset_after)"
    by simp
  with step_logged_progress_zero [OF example_step_reset example_wf(4)] n
  show ?thesis
    using example_step_reset example_wf(4) by simp
qed

section \<open>Properties of the direction to the goal\<close>

lemma direction_to_goal_shape:
  assumes "wf_low_env e" "i < num_envs e"
  shows "length (direction_to_goal e) = num_envs e"
    and "length (direction_to_goal e ! i) = 2 * num_envs e"
  using assms
  by (simp_all add: wf_low_env_def direction_to_goal_def Let_def robot_position_2d_def
        goal_position_2d_def)

text \<open>
  C6. \<open>direction_to_goal\<close> for two environments at the origin, with yaw \<open>0\<close> and
  \<open>pi\<close>, and both goals at \<open>(1, 0)\<close>: the result has four columns, not two, and the
  first two entries of the second row are \<open>(1, - 1)\<close>, of norm \<open>sqrt 2\<close>, where the
  direction in the robot frame is \<open>(- 1, 0)\<close>. (For a result of \<open>num_envs\<close> rows of
  \<open>2 * num_envs\<close> columns in general see \<open>direction_to_goal_shape\<close>; for the
  observation of \<open>HierarchicalNavEnv\<close>, whose direction is the rotated unit vector,
  see \<open>high_level_direction_unit\<close>.)
\<close>

theorem direction_to_goal_two_envs:
  "direction_to_goal
     \<lparr>num_envs = 2, root_pos_w = [(0, 0, 0), (0, 0, 0)],
      root_quat_w = [(1, 0, 0, 0), (0, 0, 0, 1)],
      base_velocity = \<lparr>nrows = 2, ncols = 3, vals = [[0, 0, 0], [0, 0, 0]]\<rparr>,
      goal_position = [(1, 0), (1, 0)], world = ()\<rparr>
   = [[1, - 1, 0, 0], [1, - 1, 0, 0]]"
  by (simp add: direction_to_goal_def Let_def robot_position_2d_def goal_position_2d_def
        yaw_of_quat_def atan2_def sub2_def norm2_def unit_dir_def clamp_min_def)

lemma rotation_algebra:
  fixes c s wx wy :: real
  assumes "c\<^sup>2 + s\<^sup>2 = 1"
  shows "(wx * c + wy * s)\<^sup>2 + (- wx * s + wy * c)\<^sup>2 = wx\<^sup>2 + wy\<^sup>2"
    and "(wx * c + wy * s) * c - (- wx * s + wy * c) * s = wx"
    and "(wx * c + wy * s) * s + (- wx * s + wy * c) * c = wy"
proof -
  have "(wx * c + wy * s)\<^sup>2 + (- wx * s + wy * c)\<^sup>2 = (wx\<^sup>2 + wy\<^sup>2) * (c\<^sup>2 + s\<^sup>2)"
    by (simp add: power2_eq_square algebra_simps)
  then show "(wx * c + wy * s)\<^sup>2 + (- wx * s + wy * c)\<^sup>2 = wx\<^sup>2 + wy\<^sup>2"
    by (simp only: assms mult_1_right)
  have "(wx * c + wy * s) * c - (- wx * s + wy * c) * s = wx * (c\<^sup>2 + s\<^sup>2)"
    by (simp add: power2_eq_square algebra_simps)
  then show "(wx * c + wy * s) * c - (- wx * s + wy * c) * s = wx"
    by (simp only: assms mult_1_right)
  have "(wx * c + wy * s) * s + (- wx * s + wy * c) * c = wy * (c\<^sup>2 + s\<^sup>2)"
    by (simp add: power2_eq_square algebra_simps)
  then show "(wx * c + wy * s) * s + (- wx * s + wy * c) * c = wy"
    by (simp only: assms mult_1_right)
qed

lemma unit_vector:
  fixes vx vy d :: real
  assumes d: "d = sqrt (vx\<^sup>2 + vy\<^sup>2)" and pos: "0 < d"
  shows "(vx / d)\<^sup>2 + (vy / d)\<^sup>2 = 1"
proof -
  have d2: "d\<^sup>2 = vx\<^sup>2 + vy\<^sup>2"
    using d by (simp add: real_sqrt_pow2_iff sum_power2_ge_zero)
  have "(vx / d)\<^sup>2 + (vy / d)\<^sup>2 = (vx\<^sup>2 + vy\<^sup>2) / d\<^sup>2"
    by (simp add: power_divide add_divide_distrib)
  also have "\<dots> = d\<^sup>2 / d\<^sup>2" by (simp only: d2)
  also have "\<dots> = 1" using pos by simp
  finally show ?thesis .
qed

lemma high_level_observation_row:
  assumes "wf_nav nav" "i < num_envs (env nav)"
  defines "p \<equiv> robot_position_2d (env nav) ! i"
    and "g \<equiv> goal_positions nav ! i"
    and "yaw \<equiv> robot_yaw (env nav) ! i"
  defines "v \<equiv> sub2 g p"
  defines "w \<equiv> unit_dir v (norm2 v)"
  shows "get_high_level_observations nav ! i
           = [fst p, snd p, yaw, fst g, snd g, norm2 v,
              fst w * cos yaw + snd w * sin yaw, - fst w * sin yaw + snd w * cos yaw]"
  using assms(1,2) unfolding p_def g_def yaw_def v_def w_def
  by (simp add: wf_nav_def get_high_level_observations_def Let_def cat_rows_def rows1_def
        rows2_def robot_position_2d_def robot_yaw_def split_beta)

lemma high_level_direction_unit:
  assumes wf: "wf_nav nav" and i: "i < num_envs (env nav)"
    and far: "1 / 10 ^ 6 \<le> current_distances nav ! i"
  defines "row \<equiv> get_high_level_observations nav ! i"
    and "yaw \<equiv> robot_yaw (env nav) ! i"
    and "v \<equiv> sub2 (goal_positions nav ! i) (robot_position_2d (env nav) ! i)"
  shows "(row ! 6)\<^sup>2 + (row ! 7)\<^sup>2 = 1"
    and "row ! 6 * cos yaw - row ! 7 * sin yaw = fst v / norm2 v"
    and "row ! 6 * sin yaw + row ! 7 * cos yaw = snd v / norm2 v"
proof -
  have d: "current_distances nav ! i = norm2 v"
    unfolding v_def using wf i by (rule current_distances_nth)
  have pos: "0 < norm2 v" using far d by simp
  have w: "unit_dir v (norm2 v) = (fst v / norm2 v, snd v / norm2 v)"
    using far d by (simp add: unit_dir_def clamp_min_def max_def)
  have r6: "row ! 6 = fst v / norm2 v * cos yaw + snd v / norm2 v * sin yaw"
    and r7: "row ! 7 = - (fst v / norm2 v) * sin yaw + snd v / norm2 v * cos yaw"
    unfolding row_def yaw_def v_def
    using high_level_observation_row [OF wf i] w [unfolded v_def] by simp_all
  have cs: "(cos yaw)\<^sup>2 + (sin yaw)\<^sup>2 = 1" by simp
  have u: "(fst v / norm2 v)\<^sup>2 + (snd v / norm2 v)\<^sup>2 = 1"
    using pos by (intro unit_vector) (simp_all add: norm2_def)
  show "(row ! 6)\<^sup>2 + (row ! 7)\<^sup>2 = 1"
    unfolding r6 r7 by (simp only: rotation_algebra(1) [OF cs] u)
  show "row ! 6 * cos yaw - row ! 7 * sin yaw = fst v / norm2 v"
    unfolding r6 r7 by (simp only: rotation_algebra(2) [OF cs])
  show "row ! 6 * sin yaw + row ! 7 * cos yaw = snd v / norm2 v"
    unfolding r6 r7 by (simp only: rotation_algebra(3) [OF cs])
qed

section \<open>Properties of goal resampling\<close>

lemma index_of_bound: "index_of n i = Inr j \<Longrightarrow> j < n"
  by (auto simp: index_of_def split: if_splits)

lemma gather_result:
  "gather t ids = Inr rs \<Longrightarrow>
     length rs = length ids
     \<and> (\<forall>k < length ids. \<exists>j. index_of (length t) (ids ! k) = Inr j \<and> rs ! k = t ! j)"
proof (induction ids arbitrary: rs)
  case Nil
  then show ?case by simp
next
  case (Cons i ids)
  from Cons.prems obtain j rs' where j: "index_of (length t) i = Inr j"
    and rs': "gather t ids = Inr rs'" and rs: "rs = t ! j # rs'"
    by (auto split: sum.splits)
  note ih = Cons.IH [OF rs']
  have "\<exists>j. index_of (length t) ((i # ids) ! k) = Inr j \<and> rs ! k = t ! j"
    if "k < length (i # ids)" for k
  proof (cases k)
    case 0
    then show ?thesis using j rs by simp
  next
    case (Suc k')
    then show ?thesis using ih that rs by simp
  qed
  then show ?case using ih rs by simp
qed

lemma scatter_last:
  assumes idem: "\<And>r x y. upd (upd r x) y = upd r y"
  shows "scatter upd t ids xs = Inr t' \<Longrightarrow> length xs = length ids \<Longrightarrow>
     length t' = length t
     \<and> (\<forall>j. (\<forall>k < length ids. index_of (length t) (ids ! k) \<noteq> Inr j) \<longrightarrow> t' ! j = t ! j)
     \<and> (\<forall>j. (\<exists>k < length ids. index_of (length t) (ids ! k) = Inr j) \<longrightarrow>
           (\<exists>k < length ids. index_of (length t) (ids ! k) = Inr j
               \<and> (\<forall>k' < length ids. k < k' \<longrightarrow> index_of (length t) (ids ! k') \<noteq> Inr j)
               \<and> t' ! j = upd (t ! j) (xs ! k)))"
proof (induction ids arbitrary: t xs)
  case Nil
  then show ?case by simp
next
  case (Cons i ids)
  from Cons.prems(2) obtain x xs' where xs: "xs = x # xs'" "length xs' = length ids"
    by (cases xs) auto
  from Cons.prems(1) xs obtain j0 where j0: "index_of (length t) i = Inr j0"
    and run: "scatter upd (t[j0 := upd (t ! j0) x]) ids xs' = Inr t'"
    by (auto split: sum.splits)
  let ?t1 = "t[j0 := upd (t ! j0) x]"
  have j0b: "j0 < length t" using j0 by (rule index_of_bound)
  note ih0 = Cons.IH [OF run xs(2)]
  have len1: "length ?t1 = length t" by simp
  note ih = ih0 [unfolded len1]
  have len: "length t' = length t" using ih by simp
  have unchanged: "t' ! j = t ! j"
    if "\<forall>k < length (i # ids). index_of (length t) ((i # ids) ! k) \<noteq> Inr j" for j
  proof -
    from that have "index_of (length t) i \<noteq> Inr j" by force
    with j0 have ne: "j \<noteq> j0" by auto
    from that have "\<forall>k < length ids. index_of (length t) (ids ! k) \<noteq> Inr j" by force
    with ih have "t' ! j = ?t1 ! j" by blast
    with ne show ?thesis by simp
  qed
  have t1j: "upd (?t1 ! j) y = upd (t ! j) y" for j y
  proof (cases "j = j0")
    case True
    then show ?thesis using j0b by (simp add: idem)
  next
    case False
    then show ?thesis by simp
  qed
  have written: "\<exists>k < length (i # ids). index_of (length t) ((i # ids) ! k) = Inr j
               \<and> (\<forall>k' < length (i # ids). k < k' \<longrightarrow> index_of (length t) ((i # ids) ! k') \<noteq> Inr j)
               \<and> t' ! j = upd (t ! j) (xs ! k)"
    if hit: "\<exists>k < length (i # ids). index_of (length t) ((i # ids) ! k) = Inr j" for j
  proof (cases "\<exists>k < length ids. index_of (length t) (ids ! k) = Inr j")
    case True
    with ih obtain k where k: "k < length ids" "index_of (length t) (ids ! k) = Inr j"
      and last: "\<forall>k' < length ids. k < k' \<longrightarrow> index_of (length t) (ids ! k') \<noteq> Inr j"
      and v: "t' ! j = upd (?t1 ! j) (xs' ! k)"
      by blast
    have a: "Suc k < length (i # ids)" using k by simp
    have b: "index_of (length t) ((i # ids) ! Suc k) = Inr j" using k by simp
    have c: "\<forall>k' < length (i # ids). Suc k < k' \<longrightarrow> index_of (length t) ((i # ids) ! k') \<noteq> Inr j"
    proof (intro allI impI)
      fix k' assume k': "k' < length (i # ids)" "Suc k < k'"
      then obtain k1 where k1: "k' = Suc k1" by (cases k') auto
      with k' have "k1 < length ids" "k < k1" by simp_all
      with last have "index_of (length t) (ids ! k1) \<noteq> Inr j" by blast
      then show "index_of (length t) ((i # ids) ! k') \<noteq> Inr j" using k1 by simp
    qed
    have d: "t' ! j = upd (t ! j) (xs ! Suc k)" using v t1j xs by simp
    show ?thesis using a b c d by blast
  next
    case False
    with hit have h0: "index_of (length t) i = Inr j"
      by (metis length_Cons less_Suc_eq_0_disj nth_Cons_0 nth_Cons_Suc)
    with j0 have jj: "j = j0" by simp
    from False ih have "t' ! j = ?t1 ! j" by blast
    then have d: "t' ! j = upd (t ! j) (xs ! 0)" using jj j0b xs by simp
    have c: "\<forall>k' < length (i # ids). 0 < k' \<longrightarrow> index_of (length t) ((i # ids) ! k') \<noteq> Inr j"
    proof (intro allI impI)
      fix k' assume k': "k' < length (i # ids)" "0 < k'"
      then obtain k1 where k1: "k' = Suc k1" by (cases k') auto
      with k' have "k1 < length ids" by simp
      with False have "index_of (length t) (ids ! k1) \<noteq> Inr j" by blast
      then show "index_of (length t) ((i # ids) ! k') \<noteq> Inr j" using k1 by simp
    qed
    have a: "0 < length (i # ids)" by simp
    have b: "index_of (length t) ((i # ids) ! 0) = Inr j" using h0 by simp
    show ?thesis using a b c d by blast
  qed
  show ?case using len unchanged written by blast
qed

lemma uniform_result:
  "uniform n lo hi g = Inr (xs, g') \<Longrightarrow>
     lo \<le> hi \<and> length xs = n \<and> g' = g\<lparr>pos := pos g + n\<rparr>
     \<and> (\<forall>k < n. xs ! k = lo + (hi - lo) * draws g (pos g + k))"
  by (auto simp: uniform_def split: if_splits)

lemma resample_positions_last:
  assumes run: "resample_positions (lo, hi) ids g robot goals = Inr (goals', g')"
    and len: "length robot = length goals"
    and k: "k < length ids"
  shows "lo \<le> hi \<and> (\<exists>j k'. index_of (length goals) (ids ! k) = Inr j \<and> j < length goals
           \<and> k' < length ids \<and> index_of (length goals) (ids ! k') = Inr j
           \<and> goals' ! j =
               (fst (robot ! j) + (lo + (hi - lo) * draws g (pos g + k'))
                    * cos (- pi + (pi - (- pi)) * draws g (pos g + length ids + k')),
                snd (robot ! j) + (lo + (hi - lo) * draws g (pos g + k'))
                    * sin (- pi + (pi - (- pi)) * draws g (pos g + length ids + k'))))"
proof -
  from run obtain distance g1 angle g2 robot_pos goals1 where
    u1: "uniform (length ids) lo hi g = Inr (distance, g1)"
    and u2: "uniform (length ids) (- pi) pi g1 = Inr (angle, g2)"
    and ga: "gather robot ids = Inr robot_pos"
    and s1: "scatter (\<lambda>row x. (x, snd row)) goals ids
               (map2 (\<lambda>p (d, a). fst p + d * cos a) robot_pos (zip distance angle)) = Inr goals1"
    and s2: "scatter (\<lambda>row y. (fst row, y)) goals1 ids
               (map2 (\<lambda>p (d, a). snd p + d * sin a) robot_pos (zip distance angle)) = Inr goals'"
    by (auto simp: resample_positions_def Let_def split: sum.splits prod.splits)
  note r1 = uniform_result [OF u1]
  note r2 = uniform_result [OF u2]
  note rg = gather_result [OF ga]
  let ?gx = "map2 (\<lambda>p (d, a). fst p + d * cos a) robot_pos (zip distance angle)"
  let ?gy = "map2 (\<lambda>p (d, a). snd p + d * sin a) robot_pos (zip distance angle)"
  have lx: "length ?gx = length ids" and ly: "length ?gy = length ids"
    using r1 r2 rg by simp_all
  from rg k obtain j where j: "index_of (length robot) (ids ! k) = Inr j"
    by blast
  have j': "index_of (length goals) (ids ! k) = Inr j" using j len by simp
  have jb: "j < length goals" using j' by (rule index_of_bound)
  have hit: "\<exists>k < length ids. index_of (length goals) (ids ! k) = Inr j"
    using k j' by blast
  have sc1: "length goals1 = length goals
     \<and> (\<forall>j. (\<exists>k < length ids. index_of (length goals) (ids ! k) = Inr j) \<longrightarrow>
           (\<exists>k < length ids. index_of (length goals) (ids ! k) = Inr j
               \<and> (\<forall>k' < length ids. k < k' \<longrightarrow> index_of (length goals) (ids ! k') \<noteq> Inr j)
               \<and> goals1 ! j = (?gx ! k, snd (goals ! j))))"
    using scatter_last [OF _ s1 lx] by simp
  then have l1: "length goals1 = length goals" by simp
  have sc2: "(\<forall>j. (\<exists>k < length ids. index_of (length goals) (ids ! k) = Inr j) \<longrightarrow>
           (\<exists>k < length ids. index_of (length goals) (ids ! k) = Inr j
               \<and> (\<forall>k' < length ids. k < k' \<longrightarrow> index_of (length goals) (ids ! k') \<noteq> Inr j)
               \<and> goals' ! j = (fst (goals1 ! j), ?gy ! k)))"
    using scatter_last [OF _ s2 ly] unfolding l1 by simp
  from sc1 hit obtain k1 where k1: "k1 < length ids" "index_of (length goals) (ids ! k1) = Inr j"
    and last1: "\<forall>k' < length ids. k1 < k' \<longrightarrow> index_of (length goals) (ids ! k') \<noteq> Inr j"
    and v1: "goals1 ! j = (?gx ! k1, snd (goals ! j))"
    by blast
  from sc2 hit obtain k2 where k2: "k2 < length ids" "index_of (length goals) (ids ! k2) = Inr j"
    and last2: "\<forall>k' < length ids. k2 < k' \<longrightarrow> index_of (length goals) (ids ! k') \<noteq> Inr j"
    and v2: "goals' ! j = (fst (goals1 ! j), ?gy ! k2)"
    by blast
  have "\<not> k1 < k2" using last1 k2 by blast
  moreover have "\<not> k2 < k1" using last2 k1 by blast
  ultimately have same: "k2 = k1" by simp
  from rg k1 obtain j1 where "index_of (length robot) (ids ! k1) = Inr j1"
      "robot_pos ! k1 = robot ! j1"
    by blast
  with k1(2) len have rk: "robot_pos ! k1 = robot ! j" by simp
  have dk: "distance ! k1 = lo + (hi - lo) * draws g (pos g + k1)" using r1 k1 by simp
  have ak: "angle ! k1 = - pi + (pi - (- pi)) * draws g (pos g + length ids + k1)"
    using r2 r1 k1 by simp
  have gxk: "?gx ! k1 = fst (robot ! j) + distance ! k1 * cos (angle ! k1)"
    using k1 r1 r2 rg rk by simp
  have gyk: "?gy ! k1 = snd (robot ! j) + distance ! k1 * sin (angle ! k1)"
    using k1 r1 r2 rg rk by simp
  have "goals' ! j = (fst (robot ! j) + distance ! k1 * cos (angle ! k1),
                      snd (robot ! j) + distance ! k1 * sin (angle ! k1))"
    using v2 v1 gxk gyk same by simp
  then show ?thesis using r1 j' jb k1 unfolding dk ak by blast
qed

lemma polar_distance:
  fixes d a :: real
  shows "norm2 (sub2 (fst p + d * cos a, snd p + d * sin a) p) = \<bar>d\<bar>"
proof -
  have "(d * cos a)\<^sup>2 + (d * sin a)\<^sup>2 = d\<^sup>2 * ((cos a)\<^sup>2 + (sin a)\<^sup>2)"
    by (simp only: power_mult_distrib distrib_left)
  also have "\<dots> = d\<^sup>2" by (simp only: sin_cos_squared_add2 mult_1_right)
  finally have "sqrt ((d * cos a)\<^sup>2 + (d * sin a)\<^sup>2) = \<bar>d\<bar>"
    by (simp only: real_sqrt_abs)
  then show ?thesis
    by (simp add: norm2_def sub2_def)
qed

lemma affine_in_range:
  fixes lo hi u :: real
  assumes "lo \<le> hi" "0 \<le> u" "u \<le> 1"
  shows "lo \<le> lo + (hi - lo) * u" and "lo + (hi - lo) * u \<le> hi"
proof -
  have "0 \<le> (hi - lo) * u" using assms by simp
  then show "lo \<le> lo + (hi - lo) * u" by simp
  have "(hi - lo) * u \<le> (hi - lo) * 1"
    using assms by (intro mult_left_mono) simp_all
  then show "lo + (hi - lo) * u \<le> hi" by simp
qed

text \<open>
  \<open>HierarchicalNavEnv._resample_goals\<close>: with unit draws in \<open>[0, 1]\<close>, every
  resampled environment gets a goal at a Euclidean distance between 1 and 5 from the
  robot's current position in the plane. When an index occurs more than once among
  \<open>env_ids\<close>, the goal is the one written last.
\<close>

lemma resample_goals_distance_in_range:
  assumes wf: "wf_nav nav"
    and run: "resample_goals env_ids g nav = Inr (nav', g')"
    and k: "k < length env_ids"
    and draws: "\<And>k'. k' < length env_ids \<Longrightarrow>
                  0 \<le> draws g (pos g + k') \<and> draws g (pos g + k') \<le> 1"
  shows "\<exists>j. index_of (num_envs (env nav)) (env_ids ! k) = Inr j \<and> j < num_envs (env nav)
           \<and> 1 \<le> norm2 (sub2 (goal_positions nav' ! j) (robot_position_2d (env nav) ! j))
           \<and> norm2 (sub2 (goal_positions nav' ! j) (robot_position_2d (env nav) ! j)) \<le> 5"
proof -
  let ?robot = "robot_position_2d (env nav)"
  from run have rp: "resample_positions (1, 5) env_ids g ?robot (goal_positions nav)
                    = Inr (goal_positions nav', g')"
    by (auto simp: resample_goals_def goal_distance_range_def split: sum.splits)
  have len: "length ?robot = length (goal_positions nav)"
    and n: "length (goal_positions nav) = num_envs (env nav)"
    using wf by (simp_all add: wf_nav_def robot_position_2d_def)
  from resample_positions_last [OF rp len k]
  obtain j k' where j: "index_of (length (goal_positions nav)) (env_ids ! k) = Inr j"
      "j < length (goal_positions nav)"
    and k': "k' < length env_ids"
    and v: "goal_positions nav' ! j =
               (fst (?robot ! j) + (1 + (5 - 1) * draws g (pos g + k'))
                    * cos (- pi + (pi - (- pi)) * draws g (pos g + length env_ids + k')),
                snd (?robot ! j) + (1 + (5 - 1) * draws g (pos g + k'))
                    * sin (- pi + (pi - (- pi)) * draws g (pos g + length env_ids + k')))"
    by blast
  have d: "norm2 (sub2 (goal_positions nav' ! j) (?robot ! j)) = \<bar>1 + (5 - 1) * draws g (pos g + k')\<bar>"
    unfolding v by (rule polar_distance)
  have u: "0 \<le> draws g (pos g + k')" "draws g (pos g + k') \<le> 1"
    using draws [OF k'] by simp_all
  have r: "(1::real) \<le> 1 + (5 - 1) * draws g (pos g + k')" "1 + (5 - 1) * draws g (pos g + k') \<le> (5::real)"
    using affine_in_range [of 1 5, OF _ u] by simp_all
  have "\<bar>1 + (5 - 1) * draws g (pos g + k')\<bar> = 1 + (5 - 1) * draws g (pos g + k')"
    using r by simp
  with j d r n show ?thesis by auto
qed

lemma example_resample_goals:
  "resample_goals [0] example_rng example_nav
     = Inr (example_nav\<lparr>goal_positions := [(- 1, 0)]\<rparr>, example_rng\<lparr>pos := 2\<rparr>)"
  by (simp add: resample_goals_def resample_positions_def goal_distance_range_def uniform_def
        index_of_def example_rng_def example_nav_def example_env_def robot_position_2d_def Let_def)

section \<open>Properties of UniformGoalPositionCommand\<close>

lemma resample_command_raises:
  "resample_command env_ids g (init_goal_command cfg_distance_range e)
     = Inl (if snd cfg_distance_range < fst cfg_distance_range then RuntimeError
            else AttributeError)"
  by (simp add: resample_command_def init_goal_command_def getattr_def uniform_def)

text \<open>
  C5 fails for \<open>UniformGoalPositionCommand._resample_command\<close>. On a term built by
  the constructor, with the default range \<open>(1, 5)\<close>, resampling environment 0 raises
  \<open>AttributeError\<close> at \<open>self.env\<close>: no goal is written, and the command of the term
  stays at the zeros the constructor put there, which is the position of the robot
  itself and not a point at a distance between 1 and 5 from it.
\<close>

theorem resample_command_attribute_error:
  "resample_command [0] example_rng (init_goal_command (1, 5) example_env) = Inl AttributeError
   \<and> command (init_goal_command (1, 5) example_env) = [(0, 0)]
   \<and> robot_position_2d example_env = [(0, 0)]
   \<and> norm2 (sub2 (command (init_goal_command (1, 5) example_env) ! 0)
                   (robot_position_2d example_env ! 0)) = 0"
  by (simp add: resample_command_def init_goal_command_def getattr_def uniform_def
        example_rng_def example_env_def robot_position_2d_def norm2_def sub2_def)

section \<open>Properties of the Perlin terrain\<close>













lemmas perlin_eval =
  perlin_terrain_def generate_fractal_noise_2d_def generate_perlin_noise_2d_def
  perlin_interpolate_def bc2_def bdim_def bind_err_def iadd_def map_arr_def next_scale_def
  py_int_def frac1_def fade_def rint_def astype_int16_def Let_def


lemma example_perlin_mismatch:
  "perlin_terrain (\<lambda>v. v) example_cfg_mismatch example_rng = Inl ValueError"
  by (simp add: perlin_eval example_cfg_mismatch_def example_rng_def numeral_2_eq_2)

lemma example_next_scale:
  "next_scale (fractal_lacunarity example_cfg) (1, 1) = (1, 1)"
  by (simp add: next_scale_def py_int_def example_cfg_def)





end
